theory Spec2Isabelle
  imports Complex_Main "HOL-Library.Sublist" "HOL-Library.AList"
begin

section \<open>Python values\<close>

text \<open>
  The notifier works on untyped Python values: the SNS message body (a \<open>str\<close>), and what
  \<open>json.loads\<close> makes of it (\<open>None\<close>, \<open>bool\<close>, \<open>int\<close>, \<open>float\<close>, \<open>str\<close>, \<open>list\<close>,
  \<open>dict\<close> with \<open>str\<close> keys). A \<open>dict\<close> is an association list in insertion order; a Python
  dict holds every key once, which theorems that depend on it assume as
  \<open>distinct (map fst d)\<close>. A \<open>str\<close> is a \<open>string\<close>, one \<open>char\<close> per code point (code points
  below 256), so that \<open>len\<close> is \<open>length\<close>.

  A \<open>float\<close> is an IEEE double: a finite value (a real number; the doubles are among them),
  the negative zero, an infinity or a NaN (\<open>json.loads\<close> reads \<open>Infinity\<close>, \<open>-Infinity\<close>
  and \<open>NaN\<close>). Only comparison with the literals \<open>4.0\<close> and \<open>7.0\<close> is used, and it is
  exact on doubles.
\<close>

datatype pyfloat = Finite real | NegZero | PosInf | NegInf | NaN

datatype pyval =
    PNone
  | PBool bool
  | PInt int
  | PFloat pyfloat
  | PStr string
  | PList "pyval list"
  | PDict "(string \<times> pyval) list"

text \<open>The exceptions the notifier can raise and does not catch.\<close>

datatype error = KeyError pyval | TypeError | AttributeError

text \<open>Sequencing of fallible steps: the first exception ends the evaluation.\<close>

definition ebind :: "error + 'a \<Rightarrow> ('a \<Rightarrow> error + 'b) \<Rightarrow> error + 'b" where
  "ebind m f = (case m of Inl e \<Rightarrow> Inl e | Inr x \<Rightarrow> f x)"

text \<open>
  The functions of Python's standard library that the notifier calls and this repository
  does not define: \<open>json.loads\<close> (\<open>Inl\<close> is the text of its \<open>JSONDecodeError\<close>),
  \<open>json.dumps\<close>, \<open>urllib.parse.quote\<close> on a \<open>str\<close>, and \<open>repr\<close> (the result of \<open>str()\<close> on a
  float, a list or a dict). They are parameters of the model.
\<close>

record pylib =
  json_loads :: "string \<Rightarrow> string + pyval"
  json_dumps :: "pyval \<Rightarrow> string"
  url_quote :: "string \<Rightarrow> string"
  py_repr :: "pyval \<Rightarrow> string"

subsection \<open>Operators\<close>

text \<open>\<open>sub in s\<close> on two strings: \<open>sub\<close> occurs in \<open>s\<close> as a contiguous run.\<close>

fun str_contains :: "string \<Rightarrow> string \<Rightarrow> bool" where
  "str_contains sub [] = (sub = [])"
| "str_contains sub (c # cs) = (prefix sub (c # cs) \<or> str_contains sub cs)"

text \<open>
  \<open>k in v\<close> for a string \<open>k\<close>: key membership on a dict, substring test on a \<open>str\<close>,
  element equality on a list, \<open>TypeError\<close> on what is not iterable.
\<close>

fun py_in :: "string \<Rightarrow> pyval \<Rightarrow> error + bool" where
  "py_in k (PDict d) = Inr (k \<in> set (map fst d))"
| "py_in k (PStr s) = Inr (str_contains k s)"
| "py_in k (PList xs) = Inr (PStr k \<in> set xs)"
| "py_in k PNone = Inl TypeError"
| "py_in k (PBool b) = Inl TypeError"
| "py_in k (PInt i) = Inl TypeError"
| "py_in k (PFloat f) = Inl TypeError"

text \<open>
  \<open>v[k]\<close> for a string \<open>k\<close>: the value on a dict (\<open>KeyError\<close> when absent), \<open>TypeError\<close> on
  everything else (a \<open>str\<close> or list wants an integer index, the rest has no subscript).
\<close>

fun subscript :: "pyval \<Rightarrow> string \<Rightarrow> error + pyval" where
  "subscript (PDict d) k = (case map_of d k of Some v \<Rightarrow> Inr v | None \<Rightarrow> Inl (KeyError (PStr k)))"
| "subscript v k = Inl TypeError"

text \<open>\<open>v == s\<close> for a string literal \<open>s\<close>.\<close>

definition eq_str :: "pyval \<Rightarrow> string \<Rightarrow> bool" where
  "eq_str v s = (v = PStr s)"

text \<open>\<open>v.startswith(p)\<close>: only a \<open>str\<close> has the method.\<close>

fun startswith :: "pyval \<Rightarrow> string \<Rightarrow> error + bool" where
  "startswith (PStr s) p = Inr (prefix p s)"
| "startswith v p = Inl AttributeError"

text \<open>\<open>s + v\<close> with a \<open>str\<close> on the left: only a \<open>str\<close> can be concatenated to it.\<close>

fun str_add :: "string \<Rightarrow> pyval \<Rightarrow> error + string" where
  "str_add s (PStr t) = Inr (s @ t)"
| "str_add s v = Inl TypeError"

text \<open>\<open>urllib.parse.quote(v)\<close>: \<open>TypeError\<close> unless \<open>v\<close> is a \<open>str\<close>.\<close>

fun py_quote :: "pylib \<Rightarrow> pyval \<Rightarrow> error + string" where
  "py_quote L (PStr s) = Inr (url_quote L s)"
| "py_quote L v = Inl TypeError"

text \<open>Truth value of a Python value (\<open>if v\<close>).\<close>

fun truthy :: "pyval \<Rightarrow> bool" where
  "truthy PNone = False"
| "truthy (PBool b) = b"
| "truthy (PInt i) = (i \<noteq> 0)"
| "truthy (PFloat f) = (f \<noteq> Finite 0 \<and> f \<noteq> NegZero)"
| "truthy (PStr s) = (s \<noteq> [])"
| "truthy (PList xs) = (xs \<noteq> [])"
| "truthy (PDict d) = (d \<noteq> [])"

text \<open>\<open>f < c\<close> for a float \<open>f\<close> and a finite float literal \<open>c\<close>.\<close>

fun float_less :: "pyfloat \<Rightarrow> real \<Rightarrow> bool" where
  "float_less (Finite r) c = (r < c)"
| "float_less NegZero c = (0 < c)"
| "float_less PosInf c = False"
| "float_less NegInf c = True"
| "float_less NaN c = False"

text \<open>
  \<open>v < c\<close> for a float literal \<open>c\<close>: numbers compare by value (a \<open>bool\<close> is the integer 0
  or 1, an \<open>int\<close> of any size compares exactly), anything else raises \<open>TypeError\<close>.
\<close>

fun py_less :: "pyval \<Rightarrow> real \<Rightarrow> error + bool" where
  "py_less (PBool b) c = Inr ((if b then 1 else 0) < c)"
| "py_less (PInt i) c = Inr (real_of_int i < c)"
| "py_less (PFloat f) c = Inr (float_less f c)"
| "py_less v c = Inl TypeError"

text \<open>Decimal digits of a natural number and of an integer (\<open>str\<close> of an \<open>int\<close>).\<close>

fun str_nat :: "nat \<Rightarrow> string" where
  "str_nat n =
     (if n < 10 then [''0123456789'' ! n]
      else str_nat (n div 10) @ [''0123456789'' ! (n mod 10)])"

definition str_int :: "int \<Rightarrow> string" where
  "str_int i = (if i < 0 then ''-'' @ str_nat (nat (- i)) else str_nat (nat i))"

text \<open>\<open>str(v)\<close>, which is also what \<open>'{}'.format(v)\<close> inserts.\<close>

fun py_str :: "pylib \<Rightarrow> pyval \<Rightarrow> string" where
  "py_str L PNone = ''None''"
| "py_str L (PBool b) = (if b then ''True'' else ''False'')"
| "py_str L (PInt i) = str_int i"
| "py_str L (PStr s) = s"
| "py_str L v = py_repr L v"

text \<open>\<open>states[key]\<close> on a dict literal with string keys and string values.\<close>

fun states_lookup :: "(string \<times> string) list \<Rightarrow> pyval \<Rightarrow> error + pyval" where
  "states_lookup states (PStr s) =
     (case map_of states s of Some c \<Rightarrow> Inr (PStr c) | None \<Rightarrow> Inl (KeyError (PStr s)))"
| "states_lookup states (PList xs) = Inl TypeError"
| "states_lookup states (PDict d) = Inl TypeError"
| "states_lookup states v = Inl (KeyError v)"

text \<open>\<open>d[key].append(x)\<close> on a dict \<open>d\<close>.\<close>

definition list_append :: "(string \<times> pyval) list \<Rightarrow> string \<Rightarrow> pyval \<Rightarrow> error + (string \<times> pyval) list" where
  "list_append d key x =
     (case map_of d key of
        None \<Rightarrow> Inl (KeyError (PStr key))
      | Some (PList xs) \<Rightarrow> Inr (AList.update key (PList (xs @ [x])) d)
      | Some _ \<Rightarrow> Inl AttributeError)"

text \<open>
  \<open>{**d, **m}\<close>: the entries of \<open>d\<close> in their order, each key of \<open>m\<close> set in turn (an
  existing key keeps its place and takes the new value, a new key goes to the end).
\<close>

definition dict_merge :: "(string \<times> pyval) list \<Rightarrow> (string \<times> pyval) list \<Rightarrow> (string \<times> pyval) list" where
  "dict_merge d m = foldl (\<lambda>acc (k, v). AList.update k v acc) d m"

declare str_nat.simps [simp del]

section \<open>The notifier\<close>

subsection \<open>CloudWatch alarms\<close>

definition alarm_states :: "(string \<times> string) list" where
  "alarm_states = [(''OK'', ''good''), (''INSUFFICIENT_DATA'', ''warning''), (''ALARM'', ''danger'')]"

text \<open>
  \<open>cloudwatch_notification(message, region)\<close>. The steps are in the order in which Python
  evaluates them: the test of the region, then the entries of the returned dict literal
  from first to last.
\<close>

definition cloudwatch_notification :: "pylib \<Rightarrow> pyval \<Rightarrow> pyval \<Rightarrow> error + pyval" where
  "cloudwatch_notification L message region =
     ebind (startswith region ''us-gov-'') (\<lambda>gov.
     let cloudwatch_url =
           (if gov then ''https://console.amazonaws-us-gov.com/cloudwatch/home?region=''
            else ''https://console.aws.amazon.com/cloudwatch/home?region='')
     in
     ebind (subscript message ''NewStateValue'') (\<lambda>new_state.
     ebind (states_lookup alarm_states new_state) (\<lambda>color.
     ebind (subscript message ''AlarmName'') (\<lambda>alarm_name.
     ebind (subscript message ''AlarmDescription'') (\<lambda>description.
     ebind (subscript message ''NewStateReason'') (\<lambda>reason.
     ebind (subscript message ''OldStateValue'') (\<lambda>old_state.
     ebind (str_add cloudwatch_url region) (\<lambda>url.
     ebind (py_quote L alarm_name) (\<lambda>quoted.
     Inr (PDict
       [(''color'', color),
        (''fallback'', PStr (''Alarm '' @ py_str L alarm_name @ '' triggered'')),
        (''fields'', PList
          [PDict [(''title'', PStr ''Alarm Name''), (''value'', alarm_name), (''short'', PBool True)],
           PDict [(''title'', PStr ''Alarm Description''), (''value'', description), (''short'', PBool False)],
           PDict [(''title'', PStr ''Alarm reason''), (''value'', reason), (''short'', PBool False)],
           PDict [(''title'', PStr ''Old State''), (''value'', old_state), (''short'', PBool True)],
           PDict [(''title'', PStr ''Current State''), (''value'', new_state), (''short'', PBool True)],
           PDict [(''title'', PStr ''Link to Alarm''),
                  (''value'', PStr (url @ ''#alarm:alarmFilter=ANY;name='' @ quoted)),
                  (''short'', PBool False)]])]))))))))))"

subsection \<open>GuardDuty findings\<close>

definition finding_states :: "(string \<times> string) list" where
  "finding_states = [(''Low'', ''#777777''), (''Medium'', ''warning''), (''High'', ''danger'')]"

text \<open>The \<open>if\<close>/\<open>elif\<close>/\<open>else\<close> on \<open>message['detail']['severity']\<close>.\<close>

definition severity_bucket :: "pyval \<Rightarrow> error + string" where
  "severity_bucket score =
     ebind (py_less score 4) (\<lambda>low.
       if low then Inr ''Low''
       else ebind (py_less score 7) (\<lambda>medium.
         if medium then Inr ''Medium'' else Inr ''High''))"

text \<open>\<open>guardduty_finding(message, region)\<close>, again in Python's evaluation order.\<close>

definition guardduty_finding :: "pylib \<Rightarrow> pyval \<Rightarrow> pyval \<Rightarrow> error + pyval" where
  "guardduty_finding L message region =
     ebind (startswith region ''us-gov-'') (\<lambda>gov.
     let guardduty_url =
           (if gov then ''https://console.amazonaws-us-gov.com/guardduty/home?region=''
            else ''https://console.aws.amazon.com/guardduty/home?region='')
     in
     ebind (subscript message ''detail'') (\<lambda>detail.
     ebind (subscript detail ''severity'') (\<lambda>score.
     ebind (severity_bucket score) (\<lambda>severity.
     ebind (states_lookup finding_states (PStr severity)) (\<lambda>color.
     ebind (subscript detail ''title'') (\<lambda>title.
     ebind (subscript detail ''description'') (\<lambda>description.
     ebind (subscript detail ''type'') (\<lambda>finding_type.
     ebind (subscript detail ''service'') (\<lambda>service.
     ebind (subscript service ''eventFirstSeen'') (\<lambda>first_seen.
     ebind (subscript service ''eventLastSeen'') (\<lambda>last_seen.
     ebind (subscript service ''count'') (\<lambda>count.
     ebind (str_add guardduty_url region) (\<lambda>url.
     ebind (subscript detail ''id'') (\<lambda>finding_id.
     ebind (str_add (url @ ''#/findings?search=id%3D'') finding_id) (\<lambda>link.
     Inr (PDict
       [(''color'', color),
        (''fallback'', PStr (''GuardDuty Finding: '' @ py_str L title)),
        (''fields'', PList
          [PDict [(''title'', PStr ''Description''), (''value'', description), (''short'', PBool False)],
           PDict [(''title'', PStr ''Finding type''), (''value'', finding_type), (''short'', PBool False)],
           PDict [(''title'', PStr ''First Seen''), (''value'', first_seen), (''short'', PBool True)],
           PDict [(''title'', PStr ''Last Seen''), (''value'', last_seen), (''short'', PBool True)],
           PDict [(''title'', PStr ''Severity''), (''value'', PStr severity), (''short'', PBool True)],
           PDict [(''title'', PStr ''Count''), (''value'', count), (''short'', PBool True)],
           PDict [(''title'', PStr ''Link to Finding''), (''value'', PStr link),
                  (''short'', PBool False)]])]))))))))))))))))"

subsection \<open>Any other message\<close>

text \<open>
  The value of one field: \<open>json.dumps(v)\<close> between backquotes when \<open>v\<close> is a dict or a
  list, \<open>str(v)\<close> otherwise.
\<close>

fun field_value :: "pylib \<Rightarrow> pyval \<Rightarrow> string" where
  "field_value L (PDict d) = ''`'' @ json_dumps L (PDict d) @ ''`''"
| "field_value L (PList xs) = ''`'' @ json_dumps L (PList xs) @ ''`''"
| "field_value L v = py_str L v"

text \<open>
  The loop \<open>for k, v in message.items()\<close>: each round appends one field to
  \<open>attachments['fields']\<close>.
\<close>

fun append_fields ::
  "pylib \<Rightarrow> (string \<times> pyval) list \<Rightarrow> (string \<times> pyval) list \<Rightarrow> error + (string \<times> pyval) list" where
  "append_fields L attachments [] = Inr attachments"
| "append_fields L attachments ((k, v) # items) =
     (let val = field_value L v in
      ebind (list_append attachments ''fields''
               (PDict [(''title'', PStr k), (''value'', PStr val), (''short'', PBool (length val < 25))]))
        (\<lambda>attachments'. append_fields L attachments' items))"

text \<open>\<open>default_notification(subject, message)\<close>.\<close>

definition default_notification :: "pylib \<Rightarrow> pyval \<Rightarrow> pyval \<Rightarrow> error + pyval" where
  "default_notification L subject message =
     (let attachments =
            [(''fallback'', PStr ''A new message''),
             (''title'', if truthy subject then subject else PStr ''Message''),
             (''mrkdwn_in'', PList [PStr ''value'']),
             (''fields'', PList [])]
      in ebind
           (case message of
              PDict items \<Rightarrow> append_fields L attachments items
            | _ \<Rightarrow> list_append attachments ''fields'' (PDict [(''value'', message), (''short'', PBool False)]))
           (\<lambda>attachments'. Inr (PDict attachments')))"

subsection \<open>The dispatcher\<close>

text \<open>
  The values of the environment variables \<open>SLACK_CHANNEL\<close>, \<open>SLACK_USERNAME\<close>,
  \<open>SLACK_EMOJI\<close> and \<open>ENVIRONMENT_NAME\<close>, which \<open>notify_slack\<close> reads before it looks at
  the message.
\<close>

record config =
  slack_channel :: string
  slack_username :: string
  slack_emoji :: string
  environment_name :: string

text \<open>
  The first step of \<open>notify_slack\<close> on the message: a \<open>str\<close> goes through \<open>json.loads\<close>;
  when that raises \<open>JSONDecodeError\<close> the exception is logged and the message stays the
  \<open>str\<close> it was. The result is the message to classify and the lines logged.
\<close>

definition decode_message :: "pylib \<Rightarrow> pyval \<Rightarrow> pyval \<times> string list" where
  "decode_message L message =
     (case message of
        PStr s \<Rightarrow>
          (case json_loads L s of
             Inr v \<Rightarrow> (v, [])
           | Inl err \<Rightarrow> (message, [''JSON decode error: '' @ err]))
      | _ \<Rightarrow> (message, []))"

text \<open>The envelope before the message is looked at, and the prefix of the summary line.\<close>

definition base_payload :: "config \<Rightarrow> (string \<times> pyval) list" where
  "base_payload cfg =
     [(''channel'', PStr (slack_channel cfg)),
      (''username'', PStr (slack_username cfg)),
      (''icon_emoji'', PStr (slack_emoji cfg)),
      (''attachments'', PList [])]"

definition summary_prefix :: "config \<Rightarrow> string" where
  "summary_prefix cfg =
     (if environment_name cfg \<noteq> [] then ''['' @ environment_name cfg @ ''] '' else [])"

text \<open>
  The four branches of \<open>notify_slack\<close>, each on the envelope \<open>payload\<close> built so far.
  The first: \<open>cloudwatch_notification\<close>, then the summary line, then the attachment.
\<close>

definition alarm_branch ::
  "pylib \<Rightarrow> string \<Rightarrow> (string \<times> pyval) list \<Rightarrow> pyval \<Rightarrow> pyval \<Rightarrow> error + pyval" where
  "alarm_branch L text_prefix payload message region =
     ebind (cloudwatch_notification L message region) (\<lambda>notification.
     ebind (subscript message ''AlarmName'') (\<lambda>alarm_name.
     ebind (str_add (text_prefix @ ''AWS CloudWatch notification - '') alarm_name) (\<lambda>text.
     ebind (list_append (AList.update ''text'' (PStr text) payload) ''attachments'' notification)
       (\<lambda>payload'. Inr (PDict payload')))))"

text \<open>The second: the region passed to \<open>guardduty_finding\<close> is \<open>message["region"]\<close>.\<close>

definition finding_branch ::
  "pylib \<Rightarrow> string \<Rightarrow> (string \<times> pyval) list \<Rightarrow> pyval \<Rightarrow> error + pyval" where
  "finding_branch L text_prefix payload message =
     ebind (subscript message ''region'') (\<lambda>message_region.
     ebind (guardduty_finding L message message_region) (\<lambda>notification.
     ebind (subscript message ''detail'') (\<lambda>detail.
     ebind (subscript detail ''title'') (\<lambda>title.
     ebind (str_add (text_prefix @ ''Amazon GuardDuty Finding - '') title) (\<lambda>text.
     ebind (list_append (AList.update ''text'' (PStr text) payload) ''attachments'' notification)
       (\<lambda>payload'. Inr (PDict payload')))))))"

text \<open>The third: \<open>{**payload, **message}\<close>, a \<open>TypeError\<close> when the message is no mapping.\<close>

definition preformatted_branch :: "(string \<times> pyval) list \<Rightarrow> pyval \<Rightarrow> error + pyval" where
  "preformatted_branch payload message =
     (case message of
        PDict m \<Rightarrow> Inr (PDict (dict_merge payload m))
      | _ \<Rightarrow> Inl TypeError)"

text \<open>The last: the summary line, then the attachment of \<open>default_notification\<close>.\<close>

definition generic_branch ::
  "pylib \<Rightarrow> string \<Rightarrow> (string \<times> pyval) list \<Rightarrow> pyval \<Rightarrow> pyval \<Rightarrow> error + pyval" where
  "generic_branch L text_prefix payload subject message =
     ebind (default_notification L subject message) (\<lambda>notification.
     ebind (list_append (AList.update ''text'' (PStr (text_prefix @ ''AWS notification'')) payload)
              ''attachments'' notification)
       (\<lambda>payload'. Inr (PDict payload')))"

text \<open>
  The \<open>if\<close>/\<open>elif\<close> chain of \<open>notify_slack\<close> on the decoded message, up to the envelope
  that is then serialised and posted. A condition that raises ends the evaluation as
  the exception does; \<open>and\<close> and \<open>or\<close> evaluate their right operand only when needed.
\<close>

definition build_payload :: "pylib \<Rightarrow> config \<Rightarrow> pyval \<Rightarrow> pyval \<Rightarrow> pyval \<Rightarrow> error + pyval" where
  "build_payload L cfg subject message region =
     (let payload = base_payload cfg; text_prefix = summary_prefix cfg in
      ebind (py_in ''AlarmName'' message) (\<lambda>is_alarm.
      if is_alarm then alarm_branch L text_prefix payload message region
      else
      ebind (py_in ''detail-type'' message) (\<lambda>has_detail_type.
      ebind (if has_detail_type
             then ebind (subscript message ''detail-type'') (\<lambda>t. Inr (eq_str t ''GuardDuty Finding''))
             else Inr False) (\<lambda>is_finding.
      if is_finding then finding_branch L text_prefix payload message
      else
      ebind (py_in ''attachments'' message) (\<lambda>has_attachments.
      ebind (if has_attachments then Inr True else py_in ''text'' message) (\<lambda>is_preformatted.
      if is_preformatted then preformatted_branch payload message
      else generic_branch L text_prefix payload subject message))))))"

text \<open>
  \<open>notify_slack(subject, message, region)\<close> from the decoding of the message to the
  envelope: the envelope or the exception, and the lines logged on the way. The
  webhook URL, which is read (and decrypted when it is no URL) before, and the HTTP
  request that posts the envelope after, are outside this function.
\<close>

definition notify_slack_payload ::
  "pylib \<Rightarrow> config \<Rightarrow> pyval \<Rightarrow> pyval \<Rightarrow> pyval \<Rightarrow> (error + pyval) \<times> string list" where
  "notify_slack_payload L cfg subject message region =
     (let (decoded, logged) = decode_message L message
      in (build_payload L cfg subject decoded region, logged))"

subsection \<open>A library to run the examples\<close>

text \<open>
  \<open>urllib.parse.quote\<close> with its default \<open>safe='/'\<close> on ASCII text: letters, digits
  and \<open>_.-~/\<close> stay, any other character becomes \<open>%\<close> and its two hexadecimal digits.
\<close>

definition quote_ascii :: "string \<Rightarrow> string" where
  "quote_ascii s =
     concat (map (\<lambda>c.
       if c \<in> set ''ABCDEFGHIJKLMNOPQRSTUVWXYZabcdefghijklmnopqrstuvwxyz0123456789_.-~/'' then [c]
       else [CHR ''%'', ''0123456789ABCDEF'' ! (of_char c div 16),
             ''0123456789ABCDEF'' ! (of_char c mod 16)]) s)"

text \<open>
  The library on the inputs of the examples below, with Python's answers there:
  \<open>json.loads("5")\<close> is the integer 5, text that is no JSON document from its first
  character on is refused, \<open>json.dumps\<close> of an empty list or dict is \<open>[]\<close> or \<open>{}\<close>.
  The examples call neither \<open>json.dumps\<close> nor \<open>repr\<close> on anything else.
\<close>

definition example_lib :: pylib where
  "example_lib =
     \<lparr> json_loads = (\<lambda>s. if s = ''5'' then Inr (PInt 5)
                          else Inl ''Expecting value: line 1 column 1 (char 0)''),
       json_dumps = (\<lambda>v. if v = PList [] then ''[]'' else if v = PDict [] then ''{}'' else []),
       url_quote = quote_ascii,
       py_repr = (\<lambda>v. []) \<rparr>"

definition example_config :: config where
  "example_config =
     \<lparr> slack_channel = ''#alerts'', slack_username = ''aws-notify'',
       slack_emoji = '':aws:'', environment_name = ''prod'' \<rparr>"

text \<open>
  A CloudWatch alarm with a given new state, and a GuardDuty finding with a given
  severity score that names a given region.
\<close>

definition example_alarm :: "string \<Rightarrow> pyval" where
  "example_alarm state =
     PDict [(''AlarmName'', PStr ''cpu high''),
            (''AlarmDescription'', PStr ''CPU above 90 percent''),
            (''NewStateValue'', PStr state),
            (''NewStateReason'', PStr ''Threshold Crossed''),
            (''OldStateValue'', PStr ''OK'')]"

definition example_finding :: "pyval \<Rightarrow> string \<Rightarrow> pyval" where
  "example_finding score r =
     PDict [(''detail-type'', PStr ''GuardDuty Finding''),
            (''region'', PStr r),
            (''detail'', PDict
              [(''id'', PStr ''16b1a6e4''),
               (''type'', PStr ''Recon:EC2/PortProbeUnprotectedPort''),
               (''title'', PStr ''Unprotected port is being probed''),
               (''description'', PStr ''An EC2 instance has an unprotected port''),
               (''severity'', score),
               (''service'', PDict
                 [(''eventFirstSeen'', PStr ''2018-06-01T10:00:00Z''),
                  (''eventLastSeen'', PStr ''2018-06-01T11:00:00Z''),
                  (''count'', PInt 2)])])]"

text \<open>
  Two messages that meet the test of more than one branch: an alarm that also has
  the GuardDuty \<open>detail-type\<close>, \<open>text\<close> and \<open>attachments\<close>, and a finding that also has
  \<open>text\<close>.
\<close>

definition example_alarm_with_text :: "(string \<times> pyval) list" where
  "example_alarm_with_text =
     [(''AlarmName'', PStr ''cpu high''),
      (''AlarmDescription'', PStr ''CPU above 90 percent''),
      (''NewStateValue'', PStr ''OK''),
      (''NewStateReason'', PStr ''Threshold Crossed''),
      (''OldStateValue'', PStr ''ALARM''),
      (''detail-type'', PStr ''GuardDuty Finding''),
      (''text'', PStr ''hi''),
      (''attachments'', PList [])]"

definition example_finding_with_text :: "(string \<times> pyval) list" where
  "example_finding_with_text =
     [(''detail-type'', PStr ''GuardDuty Finding''),
      (''region'', PStr ''eu-west-1''),
      (''text'', PStr ''hi''),
      (''detail'', PDict
        [(''id'', PStr ''16b1a6e4''),
         (''type'', PStr ''Recon:EC2/PortProbeUnprotectedPort''),
         (''title'', PStr ''Unprotected port is being probed''),
         (''description'', PStr ''An EC2 instance has an unprotected port''),
         (''severity'', PFloat (Finite (17 / 2))),
         (''service'', PDict
           [(''eventFirstSeen'', PStr ''2018-06-01T10:00:00Z''),
            (''eventLastSeen'', PStr ''2018-06-01T11:00:00Z''),
            (''count'', PInt 2)])])]"

section \<open>Properties\<close>

subsection \<open>Sequencing\<close>

lemma ebind_Inl [simp]: "ebind (Inl e) f = Inl e"
  by (simp add: ebind_def)

lemma ebind_Inr [simp]: "ebind (Inr x) f = f x"
  by (simp add: ebind_def)

lemma ebind_eq_Inr: "(ebind m f = Inr y) = (\<exists>x. m = Inr x \<and> f x = Inr y)"
  by (cases m) simp_all

subsection \<open>Messages that are no mapping\<close>

text \<open>
  C1. The classification is meant to be total: every payload, text that is no JSON
  included, falls in exactly one of the four shapes and classifying never fails. The
  code tests the shapes with \<open>in\<close> on whatever \<open>json.loads\<close> returned. On the message
  body \<open>5\<close> that is the integer 5, and \<open>"AlarmName" in 5\<close> raises \<open>TypeError\<close>: the
  first test of the chain fails and no shape is chosen.
\<close>

theorem classification_raises_on_json_scalar:
  assumes "json_loads L ''5'' = Inr (PInt 5)"
  shows "fst (notify_slack_payload L cfg subject (PStr ''5'') region) = Inl TypeError"
  using assms by (simp add: notify_slack_payload_def decode_message_def build_payload_def)

theorem classification_raises_on_json_scalar_witness:
  "json_loads example_lib ''5'' = Inr (PInt 5) \<and>
   fst (notify_slack_payload example_lib example_config PNone (PStr ''5'') (PStr ''us-east-1''))
     = Inl TypeError"
proof -
  have h: "json_loads example_lib ''5'' = Inr (PInt 5)"
    by (simp add: example_lib_def)
  from classification_raises_on_json_scalar [OF h]
  have "fst (notify_slack_payload example_lib example_config PNone (PStr ''5'') (PStr ''us-east-1''))
          = Inl TypeError" .
  with h show ?thesis by (rule conjI)
qed

text \<open>
  C7. A text body that is no JSON is meant to be logged and then reported through the
  generic branch. The code logs it and keeps the \<open>str\<close>, on which \<open>in\<close> is the substring
  test: the body \<open>plain text alert\<close> contains \<open>text\<close>, so the third branch is taken and
  \<open>{**payload, **message}\<close> raises \<open>TypeError\<close> on the \<open>str\<close>. The invocation fails after
  the decode error was logged.
\<close>

theorem unparsed_text_with_keyword_raises:
  assumes "json_loads L ''plain text alert'' = Inl err"
  shows "notify_slack_payload L cfg subject (PStr ''plain text alert'') region
           = (Inl TypeError, [''JSON decode error: '' @ err])"
  using assms
  by (simp add: notify_slack_payload_def decode_message_def build_payload_def
      preformatted_branch_def)

theorem unparsed_text_with_keyword_raises_witness:
  "json_loads example_lib ''plain text alert'' = Inl ''Expecting value: line 1 column 1 (char 0)'' \<and>
   notify_slack_payload example_lib example_config PNone (PStr ''plain text alert'') (PStr ''us-east-1'')
     = (Inl TypeError, [''JSON decode error: Expecting value: line 1 column 1 (char 0)''])"
proof -
  have h: "json_loads example_lib ''plain text alert'' = Inl ''Expecting value: line 1 column 1 (char 0)''"
    by (simp add: example_lib_def)
  from unparsed_text_with_keyword_raises [OF h]
  have "notify_slack_payload example_lib example_config PNone (PStr ''plain text alert'') (PStr ''us-east-1'')
          = (Inl TypeError, [''JSON decode error: '' @ ''Expecting value: line 1 column 1 (char 0)''])" .
  with h show ?thesis by simp
qed

subsection \<open>When the steps succeed\<close>

lemma startswith_eq_Inr: "(startswith v p = Inr b) = (\<exists>s. v = PStr s \<and> b = prefix p s)"
  by (cases v) auto

lemma states_lookup_eq_Inr:
  "(states_lookup st v = Inr c) = (\<exists>s c'. v = PStr s \<and> map_of st s = Some c' \<and> c = PStr c')"
  by (cases v) (auto split: option.splits)

lemma str_add_eq_Inr: "(str_add s v = Inr t) = (\<exists>u. v = PStr u \<and> t = s @ u)"
  by (cases v) auto

lemma py_quote_eq_Inr: "(py_quote L v = Inr q) = (\<exists>s. v = PStr s \<and> q = url_quote L s)"
  by (cases v) auto

lemma cloudwatch_notification_Inr:
  assumes "cloudwatch_notification L message region = Inr att"
  shows "\<exists>r s c name description reason old_state.
    region = PStr r \<and>
    subscript message ''NewStateValue'' = Inr (PStr s) \<and>
    map_of alarm_states s = Some c \<and>
    subscript message ''AlarmName'' = Inr (PStr name) \<and>
    subscript message ''AlarmDescription'' = Inr description \<and>
    subscript message ''NewStateReason'' = Inr reason \<and>
    subscript message ''OldStateValue'' = Inr old_state \<and>
    att = PDict
       [(''color'', PStr c),
        (''fallback'', PStr (''Alarm '' @ name @ '' triggered'')),
        (''fields'', PList
          [PDict [(''title'', PStr ''Alarm Name''), (''value'', PStr name), (''short'', PBool True)],
           PDict [(''title'', PStr ''Alarm Description''), (''value'', description), (''short'', PBool False)],
           PDict [(''title'', PStr ''Alarm reason''), (''value'', reason), (''short'', PBool False)],
           PDict [(''title'', PStr ''Old State''), (''value'', old_state), (''short'', PBool True)],
           PDict [(''title'', PStr ''Current State''), (''value'', PStr s), (''short'', PBool True)],
           PDict [(''title'', PStr ''Link to Alarm''),
                  (''value'', PStr ((if prefix ''us-gov-'' r
                       then ''https://console.amazonaws-us-gov.com/cloudwatch/home?region=''
                       else ''https://console.aws.amazon.com/cloudwatch/home?region='')
                     @ r @ ''#alarm:alarmFilter=ANY;name='' @ url_quote L name)),
                  (''short'', PBool False)]])]"
  using assms
  by (auto simp: cloudwatch_notification_def Let_def ebind_eq_Inr startswith_eq_Inr
    states_lookup_eq_Inr str_add_eq_Inr py_quote_eq_Inr)


lemma guardduty_finding_region:
  "guardduty_finding L message region = Inr att \<Longrightarrow> \<exists>r. region = PStr r"
  by (auto simp: guardduty_finding_def ebind_eq_Inr startswith_eq_Inr)

lemma guardduty_finding_Inr:
  assumes "guardduty_finding L message (PStr r) = Inr att"
  shows "\<exists>detail score severity c title description finding_type service first_seen last_seen
            count finding_id.
    subscript message ''detail'' = Inr detail \<and>
    subscript detail ''severity'' = Inr score \<and>
    severity_bucket score = Inr severity \<and>
    map_of finding_states severity = Some c \<and>
    subscript detail ''title'' = Inr title \<and>
    subscript detail ''description'' = Inr description \<and>
    subscript detail ''type'' = Inr finding_type \<and>
    subscript detail ''service'' = Inr service \<and>
    subscript service ''eventFirstSeen'' = Inr first_seen \<and>
    subscript service ''eventLastSeen'' = Inr last_seen \<and>
    subscript service ''count'' = Inr count \<and>
    subscript detail ''id'' = Inr (PStr finding_id) \<and>
    att = PDict
       [(''color'', PStr c),
        (''fallback'', PStr (''GuardDuty Finding: '' @ py_str L title)),
        (''fields'', PList
          [PDict [(''title'', PStr ''Description''), (''value'', description), (''short'', PBool False)],
           PDict [(''title'', PStr ''Finding type''), (''value'', finding_type), (''short'', PBool False)],
           PDict [(''title'', PStr ''First Seen''), (''value'', first_seen), (''short'', PBool True)],
           PDict [(''title'', PStr ''Last Seen''), (''value'', last_seen), (''short'', PBool True)],
           PDict [(''title'', PStr ''Severity''), (''value'', PStr severity), (''short'', PBool True)],
           PDict [(''title'', PStr ''Count''), (''value'', count), (''short'', PBool True)],
           PDict [(''title'', PStr ''Link to Finding''),
                  (''value'', PStr ((if prefix ''us-gov-'' r
                       then ''https://console.amazonaws-us-gov.com/guardduty/home?region=''
                       else ''https://console.aws.amazon.com/guardduty/home?region='')
                     @ r @ ''#/findings?search=id%3D'' @ finding_id)),
                  (''short'', PBool False)]])]"
  using assms
  by (auto simp: guardduty_finding_def Let_def ebind_eq_Inr str_add_eq_Inr
      split: option.splits)

subsection \<open>The dispatcher on a mapping\<close>

lemma notify_slack_payload_fst:
  "fst (notify_slack_payload L cfg subject body region)
     = build_payload L cfg subject (fst (decode_message L body)) region"
  by (simp add: notify_slack_payload_def split: prod.splits)

lemma build_payload_dict:
  "build_payload L cfg subject (PDict m) region =
     (if ''AlarmName'' \<in> set (map fst m)
        then alarm_branch L (summary_prefix cfg) (base_payload cfg) (PDict m) region
      else if map_of m ''detail-type'' = Some (PStr ''GuardDuty Finding'')
        then finding_branch L (summary_prefix cfg) (base_payload cfg) (PDict m)
      else if ''attachments'' \<in> set (map fst m) \<or> ''text'' \<in> set (map fst m)
        then preformatted_branch (base_payload cfg) (PDict m)
      else generic_branch L (summary_prefix cfg) (base_payload cfg) subject (PDict m))"
proof (cases "map_of m ''detail-type''")
  case None
  then have "''detail-type'' \<notin> fst ` set m"
    by (simp add: map_of_eq_None_iff)
  with None show ?thesis
    by (simp add: build_payload_def Let_def)
next
  case (Some t)
  then have "''detail-type'' \<in> fst ` set m"
    by (metis map_of_eq_None_iff option.distinct(1))
  with Some show ?thesis
    by (simp add: build_payload_def Let_def eq_str_def)
qed

subsection \<open>Severity and state colours\<close>


lemma severity_bucket_range:
  "severity_bucket score = Inr b \<Longrightarrow> b \<in> {''Low'', ''Medium'', ''High''}"
  by (auto simp: severity_bucket_def ebind_eq_Inr split: if_splits)

text \<open>
  C3. The colours of an alarm are the closed table \<open>OK\<close> to \<open>good\<close>,
  \<open>INSUFFICIENT_DATA\<close> to \<open>warning\<close>, \<open>ALARM\<close> to \<open>danger\<close>. An attachment is only
  produced for a new state of the table, with the table's colour. For a new-state label
  outside the table the lookup raises (Python's \<open>KeyError\<close> on the label), in
  \<open>cloudwatch_notification\<close> and so in the dispatcher for every payload with the key
  \<open>AlarmName\<close>: no colour is substituted.
\<close>

theorem alarm_state_color_closed:
  "map_of alarm_states ''OK'' = Some ''good'' \<and>
   map_of alarm_states ''INSUFFICIENT_DATA'' = Some ''warning'' \<and>
   map_of alarm_states ''ALARM'' = Some ''danger'' \<and>
   dom (map_of alarm_states) = {''OK'', ''INSUFFICIENT_DATA'', ''ALARM''} \<and>
   (\<forall>att. cloudwatch_notification L message region = Inr att \<longrightarrow>
      (\<exists>s c. subscript message ''NewStateValue'' = Inr (PStr s) \<and>
             map_of alarm_states s = Some c \<and> subscript att ''color'' = Inr (PStr c))) \<and>
   (subscript message ''NewStateValue'' = Inr (PStr s) \<longrightarrow>
    s \<notin> {''OK'', ''INSUFFICIENT_DATA'', ''ALARM''} \<longrightarrow>
      cloudwatch_notification L message (PStr r) = Inl (KeyError (PStr s))) \<and>
   (fst (decode_message L body) = PDict m \<longrightarrow> ''AlarmName'' \<in> set (map fst m) \<longrightarrow>
    map_of m ''NewStateValue'' = Some (PStr s) \<longrightarrow>
    s \<notin> {''OK'', ''INSUFFICIENT_DATA'', ''ALARM''} \<longrightarrow>
      fst (notify_slack_payload L cfg subject body (PStr r)) = Inl (KeyError (PStr s)))"
proof -
  have table: "map_of alarm_states ''OK'' = Some ''good''"
    "map_of alarm_states ''INSUFFICIENT_DATA'' = Some ''warning''"
    "map_of alarm_states ''ALARM'' = Some ''danger''"
    by (simp_all add: alarm_states_def)
  have closed: "dom (map_of alarm_states) = {''OK'', ''INSUFFICIENT_DATA'', ''ALARM''}"
    by (auto simp: alarm_states_def dom_map_of_conv_image_fst)
  have unknown: "map_of alarm_states t = None"
    if "t \<notin> {''OK'', ''INSUFFICIENT_DATA'', ''ALARM''}" for t
    using that closed by (metis domIff)
  have ok: "\<exists>s c. subscript message ''NewStateValue'' = Inr (PStr s) \<and>
             map_of alarm_states s = Some c \<and> subscript att ''color'' = Inr (PStr c)"
    if "cloudwatch_notification L message region = Inr att" for att
    using cloudwatch_notification_Inr [OF that] by auto
  have fails: "cloudwatch_notification L msg (PStr r) = Inl (KeyError (PStr s))"
    if "subscript msg ''NewStateValue'' = Inr (PStr s)"
      and "s \<notin> {''OK'', ''INSUFFICIENT_DATA'', ''ALARM''}" for msg
    using that(1) unknown [OF that(2)]
    by (simp add: cloudwatch_notification_def)
  have dispatch: "fst (notify_slack_payload L cfg subject body (PStr r)) = Inl (KeyError (PStr s))"
    if "fst (decode_message L body) = PDict m" and "''AlarmName'' \<in> set (map fst m)"
      and "map_of m ''NewStateValue'' = Some (PStr s)"
      and "s \<notin> {''OK'', ''INSUFFICIENT_DATA'', ''ALARM''}"
  proof -
    have "cloudwatch_notification L (PDict m) (PStr r) = Inl (KeyError (PStr s))"
      using that(3,4) by (intro fails) simp_all
    with that(1,2) show ?thesis
      by (simp add: notify_slack_payload_fst build_payload_dict alarm_branch_def)
  qed
  show ?thesis
    by (intro conjI allI impI;
        (rule table closed | erule ok | erule (1) fails | erule (3) dispatch))
qed


theorem alarm_state_color_closed_witness:
  "(\<exists>att. cloudwatch_notification example_lib (example_alarm ''ALARM'') (PStr ''us-east-1'') = Inr att \<and>
      subscript att ''color'' = Inr (PStr ''danger'')) \<and>
   cloudwatch_notification example_lib (example_alarm ''PENDING'') (PStr ''us-east-1'')
     = Inl (KeyError (PStr ''PENDING'')) \<and>
   fst (notify_slack_payload example_lib example_config PNone (example_alarm ''PENDING'')
          (PStr ''us-east-1'')) = Inl (KeyError (PStr ''PENDING''))"
proof -
  obtain att where att:
    "cloudwatch_notification example_lib (example_alarm ''ALARM'') (PStr ''us-east-1'') = Inr att"
    by (simp add: cloudwatch_notification_def example_alarm_def alarm_states_def)
  have alarm: "subscript (example_alarm ''ALARM'') ''NewStateValue'' = Inr (PStr ''ALARM'')"
    by (simp add: example_alarm_def)
  from alarm_state_color_closed
      [of example_lib "example_alarm ''ALARM''" "PStr ''us-east-1''",
       THEN conjunct2, THEN conjunct2, THEN conjunct2, THEN conjunct2, THEN conjunct1,
       rule_format, OF att]
  have "\<exists>s c. subscript (example_alarm ''ALARM'') ''NewStateValue'' = Inr (PStr s) \<and>
             map_of alarm_states s = Some c \<and> subscript att ''color'' = Inr (PStr c)" .
  with att alarm obtain c where "map_of alarm_states ''ALARM'' = Some c"
    and "subscript att ''color'' = Inr (PStr c)"
    by auto
  then have 1: "subscript att ''color'' = Inr (PStr ''danger'')"
    by (simp add: alarm_states_def)
  have pending: "subscript (example_alarm ''PENDING'') ''NewStateValue'' = Inr (PStr ''PENDING'')"
    and decoded: "fst (decode_message example_lib (example_alarm ''PENDING''))
       = PDict [(''AlarmName'', PStr ''cpu high''),
            (''AlarmDescription'', PStr ''CPU above 90 percent''),
            (''NewStateValue'', PStr ''PENDING''),
            (''NewStateReason'', PStr ''Threshold Crossed''),
            (''OldStateValue'', PStr ''OK'')]"
    and unknown: "''PENDING'' \<notin> {''OK'', ''INSUFFICIENT_DATA'', ''ALARM''}"
    by (simp_all add: example_alarm_def decode_message_def)
  note T = alarm_state_color_closed
    [of example_lib "example_alarm ''PENDING''" "PStr ''us-east-1''" "''PENDING''" "''us-east-1''"
       "example_alarm ''PENDING''" _ example_config PNone]
  from T [THEN conjunct2, THEN conjunct2, THEN conjunct2, THEN conjunct2, THEN conjunct2,
       THEN conjunct1, rule_format, OF pending unknown]
  have 2: "cloudwatch_notification example_lib (example_alarm ''PENDING'') (PStr ''us-east-1'')
     = Inl (KeyError (PStr ''PENDING''))" .
  from T [THEN conjunct2, THEN conjunct2, THEN conjunct2, THEN conjunct2, THEN conjunct2,
       THEN conjunct2, rule_format, OF decoded _ _ unknown]
  have 3: "fst (notify_slack_payload example_lib example_config PNone (example_alarm ''PENDING'')
          (PStr ''us-east-1'')) = Inl (KeyError (PStr ''PENDING''))"
    by simp
  from att 1 2 3 show ?thesis by (intro conjI exI [of _ att])
qed




subsection \<open>Console links\<close>

text \<open>
  C5. The link in the last field of an alarm's and of a finding's attachment starts
  with the console of the government partition exactly when the region starts with
  \<open>us-gov-\<close>, and with the standard console otherwise; then come the region and, for
  an alarm, the filter \<open>#alarm:alarmFilter=ANY;name=\<close> with the URL-quoted alarm name
  (for a finding, the search for its id).
\<close>

theorem console_link_partition:
  "(\<forall>att. cloudwatch_notification L message region = Inr att \<longrightarrow>
      (\<exists>r name fs link.
         region = PStr r \<and> subscript message ''AlarmName'' = Inr (PStr name) \<and>
         subscript att ''fields'' = Inr (PList fs) \<and> length fs = 6 \<and>
         subscript (fs ! 5) ''title'' = Inr (PStr ''Link to Alarm'') \<and>
         subscript (fs ! 5) ''value'' = Inr (PStr link) \<and>
         link = (if prefix ''us-gov-'' r
                 then ''https://console.amazonaws-us-gov.com/cloudwatch/home?region=''
                 else ''https://console.aws.amazon.com/cloudwatch/home?region='')
                @ r @ ''#alarm:alarmFilter=ANY;name='' @ url_quote L name \<and>
         prefix ''https://console.amazonaws-us-gov.com/'' link = prefix ''us-gov-'' r \<and>
         prefix ''https://console.aws.amazon.com/'' link = (\<not> prefix ''us-gov-'' r))) \<and>
   (\<forall>att. guardduty_finding L message region = Inr att \<longrightarrow>
      (\<exists>r detail finding_id fs link.
         region = PStr r \<and> subscript message ''detail'' = Inr detail \<and>
         subscript detail ''id'' = Inr (PStr finding_id) \<and>
         subscript att ''fields'' = Inr (PList fs) \<and> length fs = 7 \<and>
         subscript (fs ! 6) ''title'' = Inr (PStr ''Link to Finding'') \<and>
         subscript (fs ! 6) ''value'' = Inr (PStr link) \<and>
         link = (if prefix ''us-gov-'' r
                 then ''https://console.amazonaws-us-gov.com/guardduty/home?region=''
                 else ''https://console.aws.amazon.com/guardduty/home?region='')
                @ r @ ''#/findings?search=id%3D'' @ finding_id \<and>
         prefix ''https://console.amazonaws-us-gov.com/'' link = prefix ''us-gov-'' r \<and>
         prefix ''https://console.aws.amazon.com/'' link = (\<not> prefix ''us-gov-'' r)))"
proof (intro conjI allI impI)
  fix att
  assume "cloudwatch_notification L message region = Inr att"
  from cloudwatch_notification_Inr [OF this]
  obtain r s c name description reason old_state where
    "region = PStr r"
    "subscript message ''AlarmName'' = Inr (PStr name)"
    "att = PDict
       [(''color'', PStr c),
        (''fallback'', PStr (''Alarm '' @ name @ '' triggered'')),
        (''fields'', PList
          [PDict [(''title'', PStr ''Alarm Name''), (''value'', PStr name), (''short'', PBool True)],
           PDict [(''title'', PStr ''Alarm Description''), (''value'', description), (''short'', PBool False)],
           PDict [(''title'', PStr ''Alarm reason''), (''value'', reason), (''short'', PBool False)],
           PDict [(''title'', PStr ''Old State''), (''value'', old_state), (''short'', PBool True)],
           PDict [(''title'', PStr ''Current State''), (''value'', PStr s), (''short'', PBool True)],
           PDict [(''title'', PStr ''Link to Alarm''),
                  (''value'', PStr ((if prefix ''us-gov-'' r
                       then ''https://console.amazonaws-us-gov.com/cloudwatch/home?region=''
                       else ''https://console.aws.amazon.com/cloudwatch/home?region='')
                     @ r @ ''#alarm:alarmFilter=ANY;name='' @ url_quote L name)),
                  (''short'', PBool False)]])]"
    by (elim exE conjE)
  then show "\<exists>r name fs link.
         region = PStr r \<and> subscript message ''AlarmName'' = Inr (PStr name) \<and>
         subscript att ''fields'' = Inr (PList fs) \<and> length fs = 6 \<and>
         subscript (fs ! 5) ''title'' = Inr (PStr ''Link to Alarm'') \<and>
         subscript (fs ! 5) ''value'' = Inr (PStr link) \<and>
         link = (if prefix ''us-gov-'' r
                 then ''https://console.amazonaws-us-gov.com/cloudwatch/home?region=''
                 else ''https://console.aws.amazon.com/cloudwatch/home?region='')
                @ r @ ''#alarm:alarmFilter=ANY;name='' @ url_quote L name \<and>
         prefix ''https://console.amazonaws-us-gov.com/'' link = prefix ''us-gov-'' r \<and>
         prefix ''https://console.aws.amazon.com/'' link = (\<not> prefix ''us-gov-'' r)"
    by simp
next
  fix att
  assume "guardduty_finding L message region = Inr att"
  moreover from guardduty_finding_region [OF this] obtain r where r: "region = PStr r" ..
  ultimately have "guardduty_finding L message (PStr r) = Inr att" by simp
  from guardduty_finding_Inr [OF this]
  obtain detail severity c title description finding_type first_seen last_seen count finding_id
    where
    "subscript message ''detail'' = Inr detail"
    "subscript detail ''id'' = Inr (PStr finding_id)"
    "att = PDict
       [(''color'', PStr c),
        (''fallback'', PStr (''GuardDuty Finding: '' @ py_str L title)),
        (''fields'', PList
          [PDict [(''title'', PStr ''Description''), (''value'', description), (''short'', PBool False)],
           PDict [(''title'', PStr ''Finding type''), (''value'', finding_type), (''short'', PBool False)],
           PDict [(''title'', PStr ''First Seen''), (''value'', first_seen), (''short'', PBool True)],
           PDict [(''title'', PStr ''Last Seen''), (''value'', last_seen), (''short'', PBool True)],
           PDict [(''title'', PStr ''Severity''), (''value'', PStr severity), (''short'', PBool True)],
           PDict [(''title'', PStr ''Count''), (''value'', count), (''short'', PBool True)],
           PDict [(''title'', PStr ''Link to Finding''),
                  (''value'', PStr ((if prefix ''us-gov-'' r
                       then ''https://console.amazonaws-us-gov.com/guardduty/home?region=''
                       else ''https://console.aws.amazon.com/guardduty/home?region='')
                     @ r @ ''#/findings?search=id%3D'' @ finding_id)),
                  (''short'', PBool False)]])]"
    by (elim exE conjE)
  with r show "\<exists>r detail finding_id fs link.
         region = PStr r \<and> subscript message ''detail'' = Inr detail \<and>
         subscript detail ''id'' = Inr (PStr finding_id) \<and>
         subscript att ''fields'' = Inr (PList fs) \<and> length fs = 7 \<and>
         subscript (fs ! 6) ''title'' = Inr (PStr ''Link to Finding'') \<and>
         subscript (fs ! 6) ''value'' = Inr (PStr link) \<and>
         link = (if prefix ''us-gov-'' r
                 then ''https://console.amazonaws-us-gov.com/guardduty/home?region=''
                 else ''https://console.aws.amazon.com/guardduty/home?region='')
                @ r @ ''#/findings?search=id%3D'' @ finding_id \<and>
         prefix ''https://console.amazonaws-us-gov.com/'' link = prefix ''us-gov-'' r \<and>
         prefix ''https://console.aws.amazon.com/'' link = (\<not> prefix ''us-gov-'' r)"
    by simp
qed


theorem console_link_partition_witness:
  "(\<exists>att fs. cloudwatch_notification example_lib (example_alarm ''ALARM'')
              (PStr ''us-gov-west-1'') = Inr att \<and>
            subscript att ''fields'' = Inr (PList fs) \<and>
            subscript (fs ! 5) ''value'' = Inr (PStr ''https://console.amazonaws-us-gov.com/cloudwatch/home?region=us-gov-west-1#alarm:alarmFilter=ANY;name=cpu%20high'')) \<and>
   (\<exists>att fs. cloudwatch_notification example_lib (example_alarm ''ALARM'')
              (PStr ''us-east-1'') = Inr att \<and>
            subscript att ''fields'' = Inr (PList fs) \<and>
            subscript (fs ! 5) ''value'' = Inr (PStr ''https://console.aws.amazon.com/cloudwatch/home?region=us-east-1#alarm:alarmFilter=ANY;name=cpu%20high'')) \<and>
   (\<exists>att fs. guardduty_finding example_lib (example_finding (PInt 5) ''us-gov-west-1'')
              (PStr ''us-gov-west-1'') = Inr att \<and>
            subscript att ''fields'' = Inr (PList fs) \<and>
            subscript (fs ! 6) ''value'' = Inr (PStr ''https://console.amazonaws-us-gov.com/guardduty/home?region=us-gov-west-1#/findings?search=id%3D16b1a6e4'')) \<and>
   (\<exists>att fs. guardduty_finding example_lib (example_finding (PInt 5) ''us-east-1'')
              (PStr ''us-east-1'') = Inr att \<and>
            subscript att ''fields'' = Inr (PList fs) \<and>
            subscript (fs ! 6) ''value'' = Inr (PStr ''https://console.aws.amazon.com/guardduty/home?region=us-east-1#/findings?search=id%3D16b1a6e4''))"
proof -
  have a1: "\<exists>att fs. cloudwatch_notification example_lib (example_alarm ''ALARM'')
              (PStr ''us-gov-west-1'') = Inr att \<and>
            subscript att ''fields'' = Inr (PList fs) \<and>
            subscript (fs ! 5) ''value'' = Inr (PStr ''https://console.amazonaws-us-gov.com/cloudwatch/home?region=us-gov-west-1#alarm:alarmFilter=ANY;name=cpu%20high'')"
  proof -
    obtain att where att:
      "cloudwatch_notification example_lib (example_alarm ''ALARM'') (PStr ''us-gov-west-1'') = Inr att"
      by (simp add: cloudwatch_notification_def example_alarm_def alarm_states_def)
    from console_link_partition
        [of example_lib "example_alarm ''ALARM''" "PStr ''us-gov-west-1''",
         THEN conjunct1, rule_format, OF att]
    obtain r name fs link where "PStr ''us-gov-west-1'' = PStr r"
      and "subscript (example_alarm ''ALARM'') ''AlarmName'' = Inr (PStr name)"
      and fs: "subscript att ''fields'' = Inr (PList fs)"
      and v: "subscript (fs ! 5) ''value'' = Inr (PStr link)"
      and link: "link = (if prefix ''us-gov-'' r
                 then ''https://console.amazonaws-us-gov.com/cloudwatch/home?region=''
                 else ''https://console.aws.amazon.com/cloudwatch/home?region='')
                @ r @ ''#alarm:alarmFilter=ANY;name='' @ url_quote example_lib name"
      by (elim exE conjE)
    then have "r = ''us-gov-west-1''" and "name = ''cpu high''"
      by (simp_all add: example_alarm_def)
    with link have "link = ''https://console.amazonaws-us-gov.com/cloudwatch/home?region=us-gov-west-1#alarm:alarmFilter=ANY;name=cpu%20high''"
      by (simp add: example_alarm_def example_lib_def quote_ascii_def)
    with att fs v show ?thesis by (intro exI conjI) simp_all
  qed
  have a2: "\<exists>att fs. cloudwatch_notification example_lib (example_alarm ''ALARM'')
              (PStr ''us-east-1'') = Inr att \<and>
            subscript att ''fields'' = Inr (PList fs) \<and>
            subscript (fs ! 5) ''value'' = Inr (PStr ''https://console.aws.amazon.com/cloudwatch/home?region=us-east-1#alarm:alarmFilter=ANY;name=cpu%20high'')"
  proof -
    obtain att where att:
      "cloudwatch_notification example_lib (example_alarm ''ALARM'') (PStr ''us-east-1'') = Inr att"
      by (simp add: cloudwatch_notification_def example_alarm_def alarm_states_def)
    from console_link_partition
        [of example_lib "example_alarm ''ALARM''" "PStr ''us-east-1''",
         THEN conjunct1, rule_format, OF att]
    obtain r name fs link where "PStr ''us-east-1'' = PStr r"
      and "subscript (example_alarm ''ALARM'') ''AlarmName'' = Inr (PStr name)"
      and fs: "subscript att ''fields'' = Inr (PList fs)"
      and v: "subscript (fs ! 5) ''value'' = Inr (PStr link)"
      and link: "link = (if prefix ''us-gov-'' r
                 then ''https://console.amazonaws-us-gov.com/cloudwatch/home?region=''
                 else ''https://console.aws.amazon.com/cloudwatch/home?region='')
                @ r @ ''#alarm:alarmFilter=ANY;name='' @ url_quote example_lib name"
      by (elim exE conjE)
    then have "r = ''us-east-1''" and "name = ''cpu high''"
      by (simp_all add: example_alarm_def)
    with link have "link = ''https://console.aws.amazon.com/cloudwatch/home?region=us-east-1#alarm:alarmFilter=ANY;name=cpu%20high''"
      by (simp add: example_alarm_def example_lib_def quote_ascii_def)
    with att fs v show ?thesis by (intro exI conjI) simp_all
  qed
  have f1: "\<exists>att fs. guardduty_finding example_lib (example_finding (PInt 5) ''us-gov-west-1'')
              (PStr ''us-gov-west-1'') = Inr att \<and>
            subscript att ''fields'' = Inr (PList fs) \<and>
            subscript (fs ! 6) ''value'' = Inr (PStr ''https://console.amazonaws-us-gov.com/guardduty/home?region=us-gov-west-1#/findings?search=id%3D16b1a6e4'')"
  proof -
    obtain att where att:
      "guardduty_finding example_lib (example_finding (PInt 5) ''us-gov-west-1'') (PStr ''us-gov-west-1'') = Inr att"
      by (simp add: guardduty_finding_def example_finding_def severity_bucket_def finding_states_def)
    from console_link_partition
        [of example_lib "example_finding (PInt 5) ''us-gov-west-1''" "PStr ''us-gov-west-1''",
         THEN conjunct2, rule_format, OF att]
    obtain r detail finding_id fs link where "PStr ''us-gov-west-1'' = PStr r"
      and "subscript (example_finding (PInt 5) ''us-gov-west-1'') ''detail'' = Inr detail"
      and "subscript detail ''id'' = Inr (PStr finding_id)"
      and fs: "subscript att ''fields'' = Inr (PList fs)"
      and v: "subscript (fs ! 6) ''value'' = Inr (PStr link)"
      and link: "link = (if prefix ''us-gov-'' r
                 then ''https://console.amazonaws-us-gov.com/guardduty/home?region=''
                 else ''https://console.aws.amazon.com/guardduty/home?region='')
                @ r @ ''#/findings?search=id%3D'' @ finding_id"
      by (elim exE conjE)
    then have "r = ''us-gov-west-1''" and "finding_id = ''16b1a6e4''"
      by (auto simp: example_finding_def)
    with link have "link = ''https://console.amazonaws-us-gov.com/guardduty/home?region=us-gov-west-1#/findings?search=id%3D16b1a6e4''"
      by simp
    with att fs v show ?thesis by (intro exI conjI) simp_all
  qed
  have f2: "\<exists>att fs. guardduty_finding example_lib (example_finding (PInt 5) ''us-east-1'')
              (PStr ''us-east-1'') = Inr att \<and>
            subscript att ''fields'' = Inr (PList fs) \<and>
            subscript (fs ! 6) ''value'' = Inr (PStr ''https://console.aws.amazon.com/guardduty/home?region=us-east-1#/findings?search=id%3D16b1a6e4'')"
  proof -
    obtain att where att:
      "guardduty_finding example_lib (example_finding (PInt 5) ''us-east-1'') (PStr ''us-east-1'') = Inr att"
      by (simp add: guardduty_finding_def example_finding_def severity_bucket_def finding_states_def)
    from console_link_partition
        [of example_lib "example_finding (PInt 5) ''us-east-1''" "PStr ''us-east-1''",
         THEN conjunct2, rule_format, OF att]
    obtain r detail finding_id fs link where "PStr ''us-east-1'' = PStr r"
      and "subscript (example_finding (PInt 5) ''us-east-1'') ''detail'' = Inr detail"
      and "subscript detail ''id'' = Inr (PStr finding_id)"
      and fs: "subscript att ''fields'' = Inr (PList fs)"
      and v: "subscript (fs ! 6) ''value'' = Inr (PStr link)"
      and link: "link = (if prefix ''us-gov-'' r
                 then ''https://console.amazonaws-us-gov.com/guardduty/home?region=''
                 else ''https://console.aws.amazon.com/guardduty/home?region='')
                @ r @ ''#/findings?search=id%3D'' @ finding_id"
      by (elim exE conjE)
    then have "r = ''us-east-1''" and "finding_id = ''16b1a6e4''"
      by (auto simp: example_finding_def)
    with link have "link = ''https://console.aws.amazon.com/guardduty/home?region=us-east-1#/findings?search=id%3D16b1a6e4''"
      by simp
    with att fs v show ?thesis by (intro exI conjI) simp_all
  qed
  from a1 a2 f1 f2 show ?thesis by (intro conjI)
qed

subsection \<open>The fields of a generic notification\<close>

lemma list_append_fields:
  "map_of att ''fields'' = Some (PList fs) \<Longrightarrow>
   list_append att ''fields'' x = Inr (AList.update ''fields'' (PList (fs @ [x])) att)"
  by (simp add: list_append_def)

lemma append_fields_map:
  "map_of att ''fields'' = Some (PList fs) \<Longrightarrow>
   append_fields L att items =
     Inr (AList.update ''fields''
           (PList (fs @ map (\<lambda>(k, v). PDict [(''title'', PStr k),
                                             (''value'', PStr (field_value L v)),
                                             (''short'', PBool (length (field_value L v) < 25))])
                         items)) att)"
proof (induction items arbitrary: att fs)
  case Nil
  then show ?case
    by (simp add: update_triv)
next
  case (Cons item items)
  obtain k v where item: "item = (k, v)" by (cases item)
  let ?x = "PDict [(''title'', PStr k), (''value'', PStr (field_value L v)),
                   (''short'', PBool (length (field_value L v) < 25))]"
  let ?att = "AList.update ''fields'' (PList (fs @ [?x])) att"
  have "map_of ?att ''fields'' = Some (PList (fs @ [?x]))"
    by (simp add: update_conv')
  from Cons.IH [OF this] Cons.prems item show ?case
    by (simp add: list_append_fields Let_def)
qed

text \<open>
  C4. For a mapping, \<open>default_notification\<close> returns one field per entry, in the order
  of the entries: the title is the key, the value is \<open>json.dumps\<close> of the entry's value
  between backquotes when that is a dict or a list and \<open>str\<close> of it otherwise, and
  \<open>short\<close> says whether the rendered value has fewer than 25 characters.
\<close>

theorem default_notification_fields:
  "default_notification L subject (PDict items) =
     Inr (PDict
       [(''fallback'', PStr ''A new message''),
        (''title'', if truthy subject then subject else PStr ''Message''),
        (''mrkdwn_in'', PList [PStr ''value'']),
        (''fields'', PList
           (map (\<lambda>(k, v). PDict [(''title'', PStr k),
                                 (''value'', PStr (field_value L v)),
                                 (''short'', PBool (length (field_value L v) < 25))])
                items))]) \<and>
   field_value L (PDict d) = ''`'' @ json_dumps L (PDict d) @ ''`'' \<and>
   field_value L (PList xs) = ''`'' @ json_dumps L (PList xs) @ ''`'' \<and>
   field_value L PNone = py_str L PNone \<and>
   field_value L (PBool b) = py_str L (PBool b) \<and>
   field_value L (PInt i) = py_str L (PInt i) \<and>
   field_value L (PFloat f) = py_str L (PFloat f) \<and>
   field_value L (PStr s) = py_str L (PStr s)"
proof -
  let ?att = "[(''fallback'', PStr ''A new message''),
        (''title'', if truthy subject then subject else PStr ''Message''),
        (''mrkdwn_in'', PList [PStr ''value'']),
        (''fields'', PList [])]"
  have "map_of ?att ''fields'' = Some (PList [])"
    by simp
  from append_fields_map [OF this, of L items]
  have "default_notification L subject (PDict items) =
     Inr (PDict
       [(''fallback'', PStr ''A new message''),
        (''title'', if truthy subject then subject else PStr ''Message''),
        (''mrkdwn_in'', PList [PStr ''value'']),
        (''fields'', PList
           (map (\<lambda>(k, v). PDict [(''title'', PStr k),
                                 (''value'', PStr (field_value L v)),
                                 (''short'', PBool (length (field_value L v) < 25))])
                items))])"
    by (simp add: default_notification_def Let_def)
  then show ?thesis
    by simp
qed

theorem default_notification_fields_witness:
  "default_notification example_lib (PStr ''Test'')
     (PDict [(''host'', PStr ''ip-10-0-0-2.ec2.internal''),
             (''note'', PStr ''disk usage is above 90 pc''),
             (''tags'', PList []),
             (''retries'', PInt 3)]) =
     Inr (PDict
       [(''fallback'', PStr ''A new message''),
        (''title'', PStr ''Test''),
        (''mrkdwn_in'', PList [PStr ''value'']),
        (''fields'', PList
           [PDict [(''title'', PStr ''host''), (''value'', PStr ''ip-10-0-0-2.ec2.internal''),
                   (''short'', PBool True)],
            PDict [(''title'', PStr ''note''), (''value'', PStr ''disk usage is above 90 pc''),
                   (''short'', PBool False)],
            PDict [(''title'', PStr ''tags''), (''value'', PStr ''`[]`''), (''short'', PBool True)],
            PDict [(''title'', PStr ''retries''), (''value'', PStr ''3''),
                   (''short'', PBool True)]])]) \<and>
   length ''ip-10-0-0-2.ec2.internal'' = 24 \<and> length ''disk usage is above 90 pc'' = 25"
proof -
  have three: "str_int 3 = ''3''"
    by (simp add: str_int_def str_nat.simps)
  from default_notification_fields
    [of example_lib "PStr ''Test''"
       "[(''host'', PStr ''ip-10-0-0-2.ec2.internal''),
         (''note'', PStr ''disk usage is above 90 pc''),
         (''tags'', PList []),
         (''retries'', PInt 3)]", THEN conjunct1]
  show ?thesis
    by (simp add: example_lib_def three)
qed

subsection \<open>Merging a preformatted message\<close>

lemma map_of_foldl_update:
  "distinct (map fst m) \<Longrightarrow>
   map_of (foldl (\<lambda>acc (k, v). AList.update k v acc) d m) = map_of d ++ map_of m"
proof (induction m arbitrary: d)
  case Nil
  then show ?case by simp
next
  case (Cons kv m)
  obtain k v where kv: "kv = (k, v)" by (cases kv)
  with Cons.prems have fresh: "k \<notin> dom (map_of m)" and rest: "distinct (map fst m)"
    by (simp_all add: dom_map_of_conv_image_fst)
  have "map_of (foldl (\<lambda>acc (k, v). AList.update k v acc) d (kv # m))
          = map_of (AList.update k v d) ++ map_of m"
    using Cons.IH [OF rest] kv by simp
  also have "\<dots> = (map_of d)(k \<mapsto> v) ++ map_of m"
    by (simp add: update_conv')
  also have "\<dots> = (map_of d ++ map_of m)(k \<mapsto> v)"
    using fresh by (rule map_add_upd_left)
  also have "\<dots> = map_of d ++ map_of (kv # m)"
    using kv by simp
  finally show ?case .
qed

lemma map_of_dict_merge:
  "distinct (map fst m) \<Longrightarrow> map_of (dict_merge d m) = map_of d ++ map_of m"
  by (simp add: dict_merge_def map_of_foldl_update)

lemma distinct_foldl_update:
  "distinct (map fst d) \<Longrightarrow>
   distinct (map fst (foldl (\<lambda>acc (k, v). AList.update k v acc) d m))"
  by (induction m arbitrary: d) (auto simp: distinct_update)

lemma distinct_dict_merge:
  "distinct (map fst d) \<Longrightarrow> distinct (map fst (dict_merge d m))"
  by (simp add: dict_merge_def distinct_foldl_update)

lemma distinct_base_payload: "distinct (map fst (base_payload cfg))"
  by (simp add: base_payload_def)

text \<open>
  C6. When the decoded message is a mapping that has neither the key \<open>AlarmName\<close> nor
  the GuardDuty \<open>detail-type\<close> and has \<open>attachments\<close> or \<open>text\<close>, the envelope is the
  base envelope merged with the message: every key of the message has the message's
  value (\<open>attachments\<close> and \<open>text\<close> too), every other key has the base envelope's value,
  so channel, username and icon keep their configured values unless the message gives
  them.
\<close>

theorem preformatted_merge_caller_wins:
  assumes "fst (decode_message L body) = PDict m"
    and "distinct (map fst m)"
    and "''AlarmName'' \<notin> set (map fst m)"
    and "map_of m ''detail-type'' \<noteq> Some (PStr ''GuardDuty Finding'')"
    and "''attachments'' \<in> set (map fst m) \<or> ''text'' \<in> set (map fst m)"
  shows "\<exists>p. fst (notify_slack_payload L cfg subject body region) = Inr (PDict p) \<and>
             distinct (map fst p) \<and>
             (\<forall>k v. map_of m k = Some v \<longrightarrow> map_of p k = Some v) \<and>
             (\<forall>k. k \<notin> set (map fst m) \<longrightarrow> map_of p k = map_of (base_payload cfg) k) \<and>
             (''channel'' \<notin> set (map fst m) \<longrightarrow> map_of p ''channel'' = Some (PStr (slack_channel cfg))) \<and>
             (''username'' \<notin> set (map fst m) \<longrightarrow> map_of p ''username'' = Some (PStr (slack_username cfg))) \<and>
             (''icon_emoji'' \<notin> set (map fst m) \<longrightarrow> map_of p ''icon_emoji'' = Some (PStr (slack_emoji cfg))) \<and>
             (''attachments'' \<notin> set (map fst m) \<longrightarrow> map_of p ''attachments'' = Some (PList []))"
proof -
  let ?p = "dict_merge (base_payload cfg) m"
  have result: "fst (notify_slack_payload L cfg subject body region) = Inr (PDict ?p)"
    using assms(1,3,4,5)
    by (simp add: notify_slack_payload_fst build_payload_dict preformatted_branch_def)
  have keys: "distinct (map fst ?p)"
    by (rule distinct_dict_merge [OF distinct_base_payload])
  have look: "map_of ?p = map_of (base_payload cfg) ++ map_of m"
    by (rule map_of_dict_merge [OF assms(2)])
  have wins: "map_of ?p k = Some v" if "map_of m k = Some v" for k v
    using that by (simp add: look map_add_Some_iff)
  have kept: "map_of ?p k = map_of (base_payload cfg) k" if "k \<notin> set (map fst m)" for k
  proof -
    from that have "map_of m k = None"
      by (simp add: map_of_eq_None_iff)
    then show ?thesis
      by (simp add: look map_add_def)
  qed
  have base: "map_of (base_payload cfg) ''channel'' = Some (PStr (slack_channel cfg))"
    "map_of (base_payload cfg) ''username'' = Some (PStr (slack_username cfg))"
    "map_of (base_payload cfg) ''icon_emoji'' = Some (PStr (slack_emoji cfg))"
    "map_of (base_payload cfg) ''attachments'' = Some (PList [])"
    by (simp_all add: base_payload_def)
  show ?thesis
  proof (intro exI [of _ ?p] conjI allI impI)
    show "fst (notify_slack_payload L cfg subject body region) = Inr (PDict ?p)"
      by (rule result)
    show "distinct (map fst ?p)"
      by (rule keys)
  qed (simp_all add: wins kept base)
qed

theorem preformatted_merge_caller_wins_witness:
  "fst (notify_slack_payload example_lib example_config PNone
          (PDict [(''text'', PStr ''hi''), (''channel'', PStr ''#other'')]) (PStr ''us-east-1''))
     = Inr (PDict [(''channel'', PStr ''#other''),
                   (''username'', PStr ''aws-notify''),
                   (''icon_emoji'', PStr '':aws:''),
                   (''attachments'', PList []),
                   (''text'', PStr ''hi'')])"
proof -
  let ?m = "[(''text'', PStr ''hi''), (''channel'', PStr ''#other'')]"
  let ?r = "fst (notify_slack_payload example_lib example_config PNone (PDict ?m) (PStr ''us-east-1''))"
  have h: "fst (decode_message example_lib (PDict ?m)) = PDict ?m"
    "distinct (map fst ?m)"
    "''AlarmName'' \<notin> set (map fst ?m)"
    "map_of ?m ''detail-type'' \<noteq> Some (PStr ''GuardDuty Finding'')"
    "''attachments'' \<in> set (map fst ?m) \<or> ''text'' \<in> set (map fst ?m)"
    by (simp_all add: decode_message_def)
  from preformatted_merge_caller_wins [OF h, of example_config PNone "PStr ''us-east-1''"]
  obtain p where p: "?r = Inr (PDict p)"
    and "map_of p ''text'' = Some (PStr ''hi'')" and "map_of p ''channel'' = Some (PStr ''#other'')"
    and "map_of p ''username'' = Some (PStr (slack_username example_config))"
    and "map_of p ''icon_emoji'' = Some (PStr (slack_emoji example_config))"
    by auto
  have "?r = Inr (PDict [(''channel'', PStr ''#other''),
                   (''username'', PStr ''aws-notify''),
                   (''icon_emoji'', PStr '':aws:''),
                   (''attachments'', PList []),
                   (''text'', PStr ''hi'')])"
    by (simp add: notify_slack_payload_fst decode_message_def build_payload_dict
        preformatted_branch_def dict_merge_def base_payload_def example_config_def)
  with p show ?thesis by simp
qed

subsection \<open>The envelope of each branch\<close>

lemma payload_with_attachment:
  "list_append (AList.update ''text'' (PStr t) (base_payload cfg)) ''attachments'' n =
     Inr [(''channel'', PStr (slack_channel cfg)),
          (''username'', PStr (slack_username cfg)),
          (''icon_emoji'', PStr (slack_emoji cfg)),
          (''attachments'', PList [n]),
          (''text'', PStr t)]"
  by (simp add: list_append_def base_payload_def)

lemma alarm_branch_Inr:
  assumes "alarm_branch L pre (base_payload cfg) message region = Inr p"
  shows "\<exists>att name.
    cloudwatch_notification L message region = Inr att \<and>
    subscript message ''AlarmName'' = Inr (PStr name) \<and>
    p = PDict [(''channel'', PStr (slack_channel cfg)),
               (''username'', PStr (slack_username cfg)),
               (''icon_emoji'', PStr (slack_emoji cfg)),
               (''attachments'', PList [att]),
               (''text'', PStr (pre @ ''AWS CloudWatch notification - '' @ name))]"
  using assms
  by (auto simp: alarm_branch_def ebind_eq_Inr str_add_eq_Inr payload_with_attachment)

lemma finding_branch_Inr:
  assumes "finding_branch L pre (base_payload cfg) message = Inr p"
  shows "\<exists>r att detail title.
    subscript message ''region'' = Inr (PStr r) \<and>
    guardduty_finding L message (PStr r) = Inr att \<and>
    subscript message ''detail'' = Inr detail \<and>
    subscript detail ''title'' = Inr (PStr title) \<and>
    p = PDict [(''channel'', PStr (slack_channel cfg)),
               (''username'', PStr (slack_username cfg)),
               (''icon_emoji'', PStr (slack_emoji cfg)),
               (''attachments'', PList [att]),
               (''text'', PStr (pre @ ''Amazon GuardDuty Finding - '' @ title))]"
proof -
  from assms obtain mr att where mr: "subscript message ''region'' = Inr mr"
    and att: "guardduty_finding L message mr = Inr att"
    by (auto simp: finding_branch_def ebind_eq_Inr)
  from guardduty_finding_region [OF att] obtain r where r: "mr = PStr r" ..
  from assms mr att r show ?thesis
    by (auto simp: finding_branch_def ebind_eq_Inr str_add_eq_Inr payload_with_attachment)
qed


lemma finding_link:
  assumes "guardduty_finding L message (PStr r) = Inr att"
  shows "\<exists>detail finding_id fs.
    subscript message ''detail'' = Inr detail \<and>
    subscript detail ''id'' = Inr (PStr finding_id) \<and>
    subscript att ''fields'' = Inr (PList fs) \<and>
    subscript (fs ! 6) ''value'' =
      Inr (PStr ((if prefix ''us-gov-'' r
                  then ''https://console.amazonaws-us-gov.com/guardduty/home?region=''
                  else ''https://console.aws.amazon.com/guardduty/home?region='')
                 @ r @ ''#/findings?search=id%3D'' @ finding_id))"
  using guardduty_finding_Inr [OF assms]
  apply (elim exE conjE)
  apply (intro exI conjI)
     apply assumption
    apply assumption
   apply simp
  apply simp
  done

lemma finding_branch_region_free:
  "build_payload L cfg subject (PDict m) region = build_payload L cfg subject (PDict m) region'"
  if "''AlarmName'' \<notin> set (map fst m)"
  using that by (simp add: build_payload_dict)

text \<open>
  C8. For a mapping with the GuardDuty \<open>detail-type\<close> (and no \<open>AlarmName\<close>) the result
  does not depend on the region given to \<open>notify_slack\<close>: the link is built from the
  message's own \<open>region\<close>. The summary line is the prefix, \<open>Amazon GuardDuty Finding - \<close>
  and the title found under \<open>detail\<close>.
\<close>

theorem finding_region_from_message:
  assumes "fst (decode_message L body) = PDict m"
    and "''AlarmName'' \<notin> set (map fst m)"
    and "map_of m ''detail-type'' = Some (PStr ''GuardDuty Finding'')"
  shows "notify_slack_payload L cfg subject body region
           = notify_slack_payload L cfg subject body region' \<and>
         (\<forall>p. fst (notify_slack_payload L cfg subject body region) = Inr p \<longrightarrow>
            (\<exists>r detail title finding_id att fs.
               map_of m ''region'' = Some (PStr r) \<and>
               map_of m ''detail'' = Some detail \<and>
               subscript detail ''title'' = Inr (PStr title) \<and>
               subscript detail ''id'' = Inr (PStr finding_id) \<and>
               guardduty_finding L (PDict m) (PStr r) = Inr att \<and>
               subscript p ''text'' =
                 Inr (PStr (summary_prefix cfg @ ''Amazon GuardDuty Finding - '' @ title)) \<and>
               subscript p ''attachments'' = Inr (PList [att]) \<and>
               subscript att ''fields'' = Inr (PList fs) \<and>
               subscript (fs ! 6) ''value'' =
                 Inr (PStr ((if prefix ''us-gov-'' r
                             then ''https://console.amazonaws-us-gov.com/guardduty/home?region=''
                             else ''https://console.aws.amazon.com/guardduty/home?region='')
                            @ r @ ''#/findings?search=id%3D'' @ finding_id)))) \<and>
         summary_prefix cfg =
           (if environment_name cfg = [] then [] else ''['' @ environment_name cfg @ ''] '')"
proof (intro conjI allI impI)
  have "build_payload L cfg subject (PDict m) region = build_payload L cfg subject (PDict m) region'"
    using assms(2) by (rule finding_branch_region_free)
  with assms(1) show "notify_slack_payload L cfg subject body region
           = notify_slack_payload L cfg subject body region'"
    by (cases "decode_message L body") (simp add: notify_slack_payload_def)
next
  show "summary_prefix cfg =
           (if environment_name cfg = [] then [] else ''['' @ environment_name cfg @ ''] '')"
    by (simp add: summary_prefix_def)
next
  fix p
  assume "fst (notify_slack_payload L cfg subject body region) = Inr p"
  with assms have "finding_branch L (summary_prefix cfg) (base_payload cfg) (PDict m) = Inr p"
    by (simp add: notify_slack_payload_fst build_payload_dict)
  from finding_branch_Inr [OF this] obtain r att detail title where
    r: "subscript (PDict m) ''region'' = Inr (PStr r)"
    and att: "guardduty_finding L (PDict m) (PStr r) = Inr att"
    and detail: "subscript (PDict m) ''detail'' = Inr detail"
    and title: "subscript detail ''title'' = Inr (PStr title)"
    and p: "p = PDict [(''channel'', PStr (slack_channel cfg)),
               (''username'', PStr (slack_username cfg)),
               (''icon_emoji'', PStr (slack_emoji cfg)),
               (''attachments'', PList [att]),
               (''text'', PStr (summary_prefix cfg @ ''Amazon GuardDuty Finding - '' @ title))]"
    by (elim exE conjE)
  from finding_link [OF att] detail obtain finding_id fs where
    fid: "subscript detail ''id'' = Inr (PStr finding_id)"
    and fs: "subscript att ''fields'' = Inr (PList fs)"
    and link: "subscript (fs ! 6) ''value'' =
                 Inr (PStr ((if prefix ''us-gov-'' r
                             then ''https://console.amazonaws-us-gov.com/guardduty/home?region=''
                             else ''https://console.aws.amazon.com/guardduty/home?region='')
                            @ r @ ''#/findings?search=id%3D'' @ finding_id))"
    by auto
  have mr: "map_of m ''region'' = Some (PStr r)" and md: "map_of m ''detail'' = Some detail"
    using r detail by (simp_all split: option.splits)
  from mr md title fid att fs link p
  show "\<exists>r detail title finding_id att fs.
               map_of m ''region'' = Some (PStr r) \<and>
               map_of m ''detail'' = Some detail \<and>
               subscript detail ''title'' = Inr (PStr title) \<and>
               subscript detail ''id'' = Inr (PStr finding_id) \<and>
               guardduty_finding L (PDict m) (PStr r) = Inr att \<and>
               subscript p ''text'' =
                 Inr (PStr (summary_prefix cfg @ ''Amazon GuardDuty Finding - '' @ title)) \<and>
               subscript p ''attachments'' = Inr (PList [att]) \<and>
               subscript att ''fields'' = Inr (PList fs) \<and>
               subscript (fs ! 6) ''value'' =
                 Inr (PStr ((if prefix ''us-gov-'' r
                             then ''https://console.amazonaws-us-gov.com/guardduty/home?region=''
                             else ''https://console.aws.amazon.com/guardduty/home?region='')
                            @ r @ ''#/findings?search=id%3D'' @ finding_id))"
    by (intro exI conjI) simp_all
qed


theorem finding_region_from_message_witness:
  "notify_slack_payload example_lib example_config PNone
       (example_finding (PInt 5) ''us-gov-west-1'') (PStr ''us-east-1'')
     = notify_slack_payload example_lib example_config PNone
       (example_finding (PInt 5) ''us-gov-west-1'') (PStr ''eu-west-1'') \<and>
   (\<exists>p att fs.
      fst (notify_slack_payload example_lib example_config PNone
             (example_finding (PInt 5) ''us-gov-west-1'') (PStr ''us-east-1'')) = Inr p \<and>
      subscript p ''text'' =
        Inr (PStr ''[prod] Amazon GuardDuty Finding - Unprotected port is being probed'') \<and>
      subscript p ''attachments'' = Inr (PList [att]) \<and>
      subscript att ''fields'' = Inr (PList fs) \<and>
      subscript (fs ! 6) ''value'' =
        Inr (PStr ''https://console.amazonaws-us-gov.com/guardduty/home?region=us-gov-west-1#/findings?search=id%3D16b1a6e4''))"
proof -
  let ?body = "example_finding (PInt 5) ''us-gov-west-1''"
  let ?m = "[(''detail-type'', PStr ''GuardDuty Finding''),
            (''region'', PStr ''us-gov-west-1''),
            (''detail'', PDict
              [(''id'', PStr ''16b1a6e4''),
               (''type'', PStr ''Recon:EC2/PortProbeUnprotectedPort''),
               (''title'', PStr ''Unprotected port is being probed''),
               (''description'', PStr ''An EC2 instance has an unprotected port''),
               (''severity'', PInt 5),
               (''service'', PDict
                 [(''eventFirstSeen'', PStr ''2018-06-01T10:00:00Z''),
                  (''eventLastSeen'', PStr ''2018-06-01T11:00:00Z''),
                  (''count'', PInt 2)])])]"
  have h: "fst (decode_message example_lib ?body) = PDict ?m"
    "''AlarmName'' \<notin> set (map fst ?m)"
    "map_of ?m ''detail-type'' = Some (PStr ''GuardDuty Finding'')"
    by (simp_all add: decode_message_def example_finding_def)
  note T = finding_region_from_message
    [OF h, of example_config PNone "PStr ''us-east-1''" "PStr ''eu-west-1''"]
  obtain p where p:
    "fst (notify_slack_payload example_lib example_config PNone ?body (PStr ''us-east-1'')) = Inr p"
    by (simp add: notify_slack_payload_fst h(1) build_payload_dict finding_branch_def
        guardduty_finding_def severity_bucket_def finding_states_def payload_with_attachment)
  from T [THEN conjunct2, THEN conjunct1, rule_format, OF p]
  obtain r detail title finding_id att fs where
    r: "map_of ?m ''region'' = Some (PStr r)"
    and detail: "map_of ?m ''detail'' = Some detail"
    and title: "subscript detail ''title'' = Inr (PStr title)"
    and fid: "subscript detail ''id'' = Inr (PStr finding_id)"
    and summary: "subscript p ''text'' =
                 Inr (PStr (summary_prefix example_config @ ''Amazon GuardDuty Finding - '' @ title))"
    and atts: "subscript p ''attachments'' = Inr (PList [att])"
    and fs: "subscript att ''fields'' = Inr (PList fs)"
    and link: "subscript (fs ! 6) ''value'' =
                 Inr (PStr ((if prefix ''us-gov-'' r
                             then ''https://console.amazonaws-us-gov.com/guardduty/home?region=''
                             else ''https://console.aws.amazon.com/guardduty/home?region='')
                            @ r @ ''#/findings?search=id%3D'' @ finding_id))"
    by (elim exE conjE)
  from r have r': "r = ''us-gov-west-1''" by simp
  from detail title fid have t': "title = ''Unprotected port is being probed''"
    and f': "finding_id = ''16b1a6e4''"
    by auto
  from summary t' have summary': "subscript p ''text'' =
        Inr (PStr ''[prod] Amazon GuardDuty Finding - Unprotected port is being probed'')"
    by (simp add: summary_prefix_def example_config_def)
  from link r' f' have link': "subscript (fs ! 6) ''value'' =
        Inr (PStr ''https://console.amazonaws-us-gov.com/guardduty/home?region=us-gov-west-1#/findings?search=id%3D16b1a6e4'')"
    by simp
  from T [THEN conjunct1] p summary' atts fs link' show ?thesis
    by (intro conjI exI [of _ p] exI [of _ att] exI [of _ fs])
qed

subsection \<open>The order of the branches\<close>

lemma alarm_branch_dict_Inr:
  assumes "alarm_branch L (summary_prefix cfg) (base_payload cfg) (PDict m) region = Inr p"
  shows "\<exists>name att.
            map_of m ''AlarmName'' = Some (PStr name) \<and>
            cloudwatch_notification L (PDict m) region = Inr att \<and>
            subscript p ''text'' =
              Inr (PStr (summary_prefix cfg @ ''AWS CloudWatch notification - '' @ name)) \<and>
            subscript p ''attachments'' = Inr (PList [att])"
proof -
  from alarm_branch_Inr [OF assms] obtain att name where
    "cloudwatch_notification L (PDict m) region = Inr att"
    "subscript (PDict m) ''AlarmName'' = Inr (PStr name)"
    "p = PDict [(''channel'', PStr (slack_channel cfg)),
               (''username'', PStr (slack_username cfg)),
               (''icon_emoji'', PStr (slack_emoji cfg)),
               (''attachments'', PList [att]),
               (''text'', PStr (summary_prefix cfg @ ''AWS CloudWatch notification - '' @ name))]"
    by (elim exE conjE)
  then show ?thesis
    by (intro exI [of _ name] exI [of _ att]) (simp split: option.splits)
qed

lemma finding_branch_dict_Inr:
  assumes "finding_branch L (summary_prefix cfg) (base_payload cfg) (PDict m) = Inr p"
  shows "\<exists>r detail title att.
            map_of m ''region'' = Some (PStr r) \<and>
            map_of m ''detail'' = Some detail \<and>
            subscript detail ''title'' = Inr (PStr title) \<and>
            guardduty_finding L (PDict m) (PStr r) = Inr att \<and>
            subscript p ''text'' =
              Inr (PStr (summary_prefix cfg @ ''Amazon GuardDuty Finding - '' @ title)) \<and>
            subscript p ''attachments'' = Inr (PList [att])"
proof -
  from finding_branch_Inr [OF assms] obtain r att detail title where
    "subscript (PDict m) ''region'' = Inr (PStr r)"
    "guardduty_finding L (PDict m) (PStr r) = Inr att"
    "subscript (PDict m) ''detail'' = Inr detail"
    "subscript detail ''title'' = Inr (PStr title)"
    "p = PDict [(''channel'', PStr (slack_channel cfg)),
               (''username'', PStr (slack_username cfg)),
               (''icon_emoji'', PStr (slack_emoji cfg)),
               (''attachments'', PList [att]),
               (''text'', PStr (summary_prefix cfg @ ''Amazon GuardDuty Finding - '' @ title))]"
    by (elim exE conjE)
  then show ?thesis
    by (intro exI [of _ r] exI [of _ detail] exI [of _ title] exI [of _ att])
       (simp split: option.splits)
qed

text \<open>
  C10. On a mapping the dispatcher takes the first branch whose test holds, in the
  order alarm, finding, preformatted, generic: a mapping with \<open>AlarmName\<close> is an alarm
  whatever else it holds (its summary is the CloudWatch line and its one attachment
  is the alarm's), one without \<open>AlarmName\<close> and with the GuardDuty \<open>detail-type\<close> is a
  finding even when it has \<open>attachments\<close> or \<open>text\<close>, and only then do \<open>attachments\<close>
  and \<open>text\<close> make it preformatted.
\<close>

theorem dispatch_priority:
  assumes "fst (decode_message L body) = PDict m"
  shows "fst (notify_slack_payload L cfg subject body region) =
     (if ''AlarmName'' \<in> set (map fst m)
        then alarm_branch L (summary_prefix cfg) (base_payload cfg) (PDict m) region
      else if map_of m ''detail-type'' = Some (PStr ''GuardDuty Finding'')
        then finding_branch L (summary_prefix cfg) (base_payload cfg) (PDict m)
      else if ''attachments'' \<in> set (map fst m) \<or> ''text'' \<in> set (map fst m)
        then preformatted_branch (base_payload cfg) (PDict m)
      else generic_branch L (summary_prefix cfg) (base_payload cfg) subject (PDict m)) \<and>
   (''AlarmName'' \<in> set (map fst m) \<longrightarrow>
      (\<forall>p. fst (notify_slack_payload L cfg subject body region) = Inr p \<longrightarrow>
         (\<exists>name att.
            map_of m ''AlarmName'' = Some (PStr name) \<and>
            cloudwatch_notification L (PDict m) region = Inr att \<and>
            subscript p ''text'' =
              Inr (PStr (summary_prefix cfg @ ''AWS CloudWatch notification - '' @ name)) \<and>
            subscript p ''attachments'' = Inr (PList [att])))) \<and>
   (''AlarmName'' \<notin> set (map fst m) \<longrightarrow>
    map_of m ''detail-type'' = Some (PStr ''GuardDuty Finding'') \<longrightarrow>
      (\<forall>p. fst (notify_slack_payload L cfg subject body region) = Inr p \<longrightarrow>
         (\<exists>r detail title att.
            map_of m ''region'' = Some (PStr r) \<and>
            map_of m ''detail'' = Some detail \<and>
            subscript detail ''title'' = Inr (PStr title) \<and>
            guardduty_finding L (PDict m) (PStr r) = Inr att \<and>
            subscript p ''text'' =
              Inr (PStr (summary_prefix cfg @ ''Amazon GuardDuty Finding - '' @ title)) \<and>
            subscript p ''attachments'' = Inr (PList [att]))))"
proof (intro conjI allI impI)
  show "fst (notify_slack_payload L cfg subject body region) =
     (if ''AlarmName'' \<in> set (map fst m)
        then alarm_branch L (summary_prefix cfg) (base_payload cfg) (PDict m) region
      else if map_of m ''detail-type'' = Some (PStr ''GuardDuty Finding'')
        then finding_branch L (summary_prefix cfg) (base_payload cfg) (PDict m)
      else if ''attachments'' \<in> set (map fst m) \<or> ''text'' \<in> set (map fst m)
        then preformatted_branch (base_payload cfg) (PDict m)
      else generic_branch L (summary_prefix cfg) (base_payload cfg) subject (PDict m))"
    by (simp only: notify_slack_payload_fst assms build_payload_dict)
next
  fix p
  assume "''AlarmName'' \<in> set (map fst m)"
    and "fst (notify_slack_payload L cfg subject body region) = Inr p"
  with assms have "alarm_branch L (summary_prefix cfg) (base_payload cfg) (PDict m) region = Inr p"
    by (simp add: notify_slack_payload_fst build_payload_dict)
  then show "\<exists>name att.
            map_of m ''AlarmName'' = Some (PStr name) \<and>
            cloudwatch_notification L (PDict m) region = Inr att \<and>
            subscript p ''text'' =
              Inr (PStr (summary_prefix cfg @ ''AWS CloudWatch notification - '' @ name)) \<and>
            subscript p ''attachments'' = Inr (PList [att])"
    by (rule alarm_branch_dict_Inr)
next
  fix p
  assume "''AlarmName'' \<notin> set (map fst m)"
    and "map_of m ''detail-type'' = Some (PStr ''GuardDuty Finding'')"
    and "fst (notify_slack_payload L cfg subject body region) = Inr p"
  with assms have "finding_branch L (summary_prefix cfg) (base_payload cfg) (PDict m) = Inr p"
    by (simp add: notify_slack_payload_fst build_payload_dict)
  then show "\<exists>r detail title att.
            map_of m ''region'' = Some (PStr r) \<and>
            map_of m ''detail'' = Some detail \<and>
            subscript detail ''title'' = Inr (PStr title) \<and>
            guardduty_finding L (PDict m) (PStr r) = Inr att \<and>
            subscript p ''text'' =
              Inr (PStr (summary_prefix cfg @ ''Amazon GuardDuty Finding - '' @ title)) \<and>
            subscript p ''attachments'' = Inr (PList [att])"
    by (rule finding_branch_dict_Inr)
qed


theorem dispatch_priority_witness:
  "(\<exists>p att.
      fst (notify_slack_payload example_lib example_config PNone
             (PDict example_alarm_with_text) (PStr ''us-east-1'')) = Inr p \<and>
      cloudwatch_notification example_lib (PDict example_alarm_with_text) (PStr ''us-east-1'')
        = Inr att \<and>
      subscript p ''text'' = Inr (PStr ''[prod] AWS CloudWatch notification - cpu high'') \<and>
      subscript p ''attachments'' = Inr (PList [att])) \<and>
   (\<exists>p att.
      fst (notify_slack_payload example_lib example_config PNone
             (PDict example_finding_with_text) (PStr ''us-east-1'')) = Inr p \<and>
      guardduty_finding example_lib (PDict example_finding_with_text) (PStr ''eu-west-1'')
        = Inr att \<and>
      subscript p ''text'' =
        Inr (PStr ''[prod] Amazon GuardDuty Finding - Unprotected port is being probed'') \<and>
      subscript p ''attachments'' = Inr (PList [att]))"
proof -
  have alarm: "\<exists>p att.
      fst (notify_slack_payload example_lib example_config PNone
             (PDict example_alarm_with_text) (PStr ''us-east-1'')) = Inr p \<and>
      cloudwatch_notification example_lib (PDict example_alarm_with_text) (PStr ''us-east-1'')
        = Inr att \<and>
      subscript p ''text'' = Inr (PStr ''[prod] AWS CloudWatch notification - cpu high'') \<and>
      subscript p ''attachments'' = Inr (PList [att])"
  proof -
    have h: "fst (decode_message example_lib (PDict example_alarm_with_text))
               = PDict example_alarm_with_text"
      by (simp add: decode_message_def)
    have key: "''AlarmName'' \<in> set (map fst example_alarm_with_text)"
      by (simp add: example_alarm_with_text_def)
    note T = dispatch_priority [OF h, of example_config PNone "PStr ''us-east-1''"]
    from T [THEN conjunct1] key
    have "fst (notify_slack_payload example_lib example_config PNone
             (PDict example_alarm_with_text) (PStr ''us-east-1''))
          = alarm_branch example_lib (summary_prefix example_config) (base_payload example_config)
              (PDict example_alarm_with_text) (PStr ''us-east-1'')"
      by simp
    then obtain p where p: "fst (notify_slack_payload example_lib example_config PNone
             (PDict example_alarm_with_text) (PStr ''us-east-1'')) = Inr p"
      by (simp add: alarm_branch_def cloudwatch_notification_def alarm_states_def
          payload_with_attachment example_alarm_with_text_def)
    from T [THEN conjunct2, THEN conjunct1, rule_format, OF key p]
    obtain name att where name: "map_of example_alarm_with_text ''AlarmName'' = Some (PStr name)"
      and att: "cloudwatch_notification example_lib (PDict example_alarm_with_text)
                  (PStr ''us-east-1'') = Inr att"
      and summary: "subscript p ''text'' =
              Inr (PStr (summary_prefix example_config @ ''AWS CloudWatch notification - '' @ name))"
      and atts: "subscript p ''attachments'' = Inr (PList [att])"
      by (elim exE conjE)
    from name have "name = ''cpu high''"
      by (simp add: example_alarm_with_text_def)
    with summary have "subscript p ''text'' =
        Inr (PStr ''[prod] AWS CloudWatch notification - cpu high'')"
      by (simp add: summary_prefix_def example_config_def)
    with p att atts show ?thesis
      by (intro exI [of _ p] exI [of _ att] conjI)
  qed
  have finding: "\<exists>p att.
      fst (notify_slack_payload example_lib example_config PNone
             (PDict example_finding_with_text) (PStr ''us-east-1'')) = Inr p \<and>
      guardduty_finding example_lib (PDict example_finding_with_text) (PStr ''eu-west-1'')
        = Inr att \<and>
      subscript p ''text'' =
        Inr (PStr ''[prod] Amazon GuardDuty Finding - Unprotected port is being probed'') \<and>
      subscript p ''attachments'' = Inr (PList [att])"
  proof -
    have h: "fst (decode_message example_lib (PDict example_finding_with_text))
               = PDict example_finding_with_text"
      by (simp add: decode_message_def)
    have key: "''AlarmName'' \<notin> set (map fst example_finding_with_text)"
      and ty: "map_of example_finding_with_text ''detail-type'' = Some (PStr ''GuardDuty Finding'')"
      by (simp_all add: example_finding_with_text_def)
    note T = dispatch_priority [OF h, of example_config PNone "PStr ''us-east-1''"]
    from T [THEN conjunct1] key ty
    have "fst (notify_slack_payload example_lib example_config PNone
             (PDict example_finding_with_text) (PStr ''us-east-1''))
          = finding_branch example_lib (summary_prefix example_config) (base_payload example_config)
              (PDict example_finding_with_text)"
      by simp
    then obtain p where p: "fst (notify_slack_payload example_lib example_config PNone
             (PDict example_finding_with_text) (PStr ''us-east-1'')) = Inr p"
      by (simp add: finding_branch_def guardduty_finding_def severity_bucket_def
          finding_states_def payload_with_attachment example_finding_with_text_def)
    from T [THEN conjunct2, THEN conjunct2, rule_format, OF key ty p]
    obtain r detail title att where
      r: "map_of example_finding_with_text ''region'' = Some (PStr r)"
      and detail: "map_of example_finding_with_text ''detail'' = Some detail"
      and title: "subscript detail ''title'' = Inr (PStr title)"
      and att: "guardduty_finding example_lib (PDict example_finding_with_text) (PStr r) = Inr att"
      and summary: "subscript p ''text'' =
              Inr (PStr (summary_prefix example_config @ ''Amazon GuardDuty Finding - '' @ title))"
      and atts: "subscript p ''attachments'' = Inr (PList [att])"
      by (elim exE conjE)
    from r have r': "r = ''eu-west-1''"
      by (simp add: example_finding_with_text_def)
    from detail title have "title = ''Unprotected port is being probed''"
      by (auto simp: example_finding_with_text_def)
    with summary have "subscript p ''text'' =
        Inr (PStr ''[prod] Amazon GuardDuty Finding - Unprotected port is being probed'')"
      by (simp add: summary_prefix_def example_config_def)
    with p att atts r' show ?thesis
      by (intro exI [of _ p] exI [of _ att] conjI) simp_all
  qed
  from alarm finding show ?thesis by (rule conjI)
qed

subsection \<open>Text and attachments of the envelope\<close>






subsection \<open>Text that is no JSON\<close>

lemma str_contains_sublist: "str_contains sub s = sublist sub s"
  by (induction s) (simp_all add: sublist_Cons_right)

text \<open>
  What the dispatcher does with a text body that \<open>json.loads\<close> refuses, for a region
  that is a string: the generic envelope with the body as its one field when the
  body contains none of the words \<open>AlarmName\<close>, \<open>detail-type\<close>, \<open>attachments\<close> and
  \<open>text\<close>, and a \<open>TypeError\<close> when it contains one of them.
\<close>

lemma unparsed_text_dispatch:
  assumes "json_loads L s = Inl err"
  shows "notify_slack_payload L cfg subject (PStr s) (PStr r) =
     (if sublist ''AlarmName'' s \<or> sublist ''detail-type'' s \<or>
         sublist ''attachments'' s \<or> sublist ''text'' s
      then Inl TypeError
      else Inr (PDict
        [(''channel'', PStr (slack_channel cfg)),
         (''username'', PStr (slack_username cfg)),
         (''icon_emoji'', PStr (slack_emoji cfg)),
         (''attachments'', PList
            [PDict [(''fallback'', PStr ''A new message''),
                    (''title'', if truthy subject then subject else PStr ''Message''),
                    (''mrkdwn_in'', PList [PStr ''value'']),
                    (''fields'', PList [PDict [(''value'', PStr s), (''short'', PBool False)]])]]),
         (''text'', PStr (summary_prefix cfg @ ''AWS notification''))]),
      [''JSON decode error: '' @ err])"
proof -
  have decoded: "decode_message L (PStr s) = (PStr s, [''JSON decode error: '' @ err])"
    using assms by (simp add: decode_message_def)
  have generic: "default_notification L subject (PStr s) =
      Inr (PDict [(''fallback'', PStr ''A new message''),
                  (''title'', if truthy subject then subject else PStr ''Message''),
                  (''mrkdwn_in'', PList [PStr ''value'']),
                  (''fields'', PList [PDict [(''value'', PStr s), (''short'', PBool False)]])])"
    by (simp add: default_notification_def list_append_def)
  have alarm: "alarm_branch L pre payload (PStr s) (PStr r) = Inl TypeError" for pre payload
    by (simp add: alarm_branch_def cloudwatch_notification_def)
  have "build_payload L cfg subject (PStr s) (PStr r) =
     (if sublist ''AlarmName'' s \<or> sublist ''detail-type'' s \<or>
         sublist ''attachments'' s \<or> sublist ''text'' s
      then Inl TypeError
      else Inr (PDict
        [(''channel'', PStr (slack_channel cfg)),
         (''username'', PStr (slack_username cfg)),
         (''icon_emoji'', PStr (slack_emoji cfg)),
         (''attachments'', PList
            [PDict [(''fallback'', PStr ''A new message''),
                    (''title'', if truthy subject then subject else PStr ''Message''),
                    (''mrkdwn_in'', PList [PStr ''value'']),
                    (''fields'', PList [PDict [(''value'', PStr s), (''short'', PBool False)]])]]),
         (''text'', PStr (summary_prefix cfg @ ''AWS notification''))]))"
    by (simp add: build_payload_def Let_def str_contains_sublist alarm preformatted_branch_def
        generic_branch_def generic payload_with_attachment)
  with decoded show ?thesis
    by (simp add: notify_slack_payload_def)
qed

end
